theory Spec2Isabelle
  imports Complex_Main "HOL-Library.Word"
begin

section \<open>Rice-leaf classifier: the inference pipeline of \<open>app/(tabs)/index.tsx\<close>\<close>

text \<open>
  The development embeds the handlers of the React component \<open>App\<close>
  (\<open>handleImageResult\<close>, \<open>analyzeImage\<close>, \<open>addToHistory\<close>) and the constants
  \<open>LABELS\<close> and \<open>DISEASE_ADVICE\<close>. The earlier version of the same screen
  (the second source file, without history) has the same encoder loop and a slightly
  different interpreter, embedded as \<open>interpret_scores_v0\<close>.

  Everything the handlers obtain from a library (image resizing, file reading, JPEG
  decoding, the classifier, the clock, the key-value store) is a field of the record
  \<open>env\<close>; a call that can throw returns a sum, \<open>Inl\<close> being the thrown value.
\<close>

subsection \<open>JavaScript numbers\<close>

text \<open>
  Elements of a \<open>Float32Array\<close> and the numbers computed from them. A finite float is
  represented by the real number it denotes. The only arithmetic the code performs on
  them is \<open>maxScore * 100\<close> in double precision, which is exact for every 32-bit float
  (a 24-bit significand times \<open>100\<close> fits in 53 bits), comparison and equality, which
  are those of the reals, and \<open>toFixed\<close>, which the language defines on the exact
  value. The two zeros are not distinguished: they are equal under \<open>===\<close> and print
  the same under \<open>toFixed\<close>.
\<close>

datatype number = NaN | NegInf | Fin real | PosInf

text \<open>The relational operators \<open><\<close>, \<open>>\<close>, \<open><=\<close> and \<open>===\<close> on numbers.\<close>

fun num_lt :: "number \<Rightarrow> number \<Rightarrow> bool" where
  "num_lt NaN b = False"
| "num_lt a NaN = False"
| "num_lt PosInf b = False"
| "num_lt a NegInf = False"
| "num_lt NegInf b = True"
| "num_lt a PosInf = True"
| "num_lt (Fin x) (Fin y) = (x < y)"

definition num_gt :: "number \<Rightarrow> number \<Rightarrow> bool" where
  "num_gt a b = num_lt b a"

definition strict_eq :: "number \<Rightarrow> number \<Rightarrow> bool" where
  "strict_eq a b = (a \<noteq> NaN \<and> b \<noteq> NaN \<and> a = b)"

definition num_le :: "number \<Rightarrow> number \<Rightarrow> bool" where
  "num_le a b = (num_lt a b \<or> strict_eq a b)"

text \<open>\<open>x * 100\<close>.\<close>

fun times100 :: "number \<Rightarrow> number" where
  "times100 NaN = NaN"
| "times100 NegInf = NegInf"
| "times100 PosInf = PosInf"
| "times100 (Fin x) = Fin (x * 100)"

subsection \<open>The tensor encoder (\<open>analyzeImage\<close>, step 3)\<close>

text \<open>
  \<^verbatim>\<open>
  const float32Data = new Float32Array(224 * 224 * 3);
  let p = 0;
  for (let i = 0; i < rawData.data.length; i += 4) {
    float32Data[p++] = rawData.data[i];     // Red
    float32Data[p++] = rawData.data[i + 1]; // Green
    float32Data[p++] = rawData.data[i + 2]; // Blue
  }
  \<close>
  \<open>rawData.data\<close> is a \<open>Uint8Array\<close>: a read past its end yields \<open>undefined\<close>,
  which a \<open>Float32Array\<close> stores as \<open>NaN\<close>. A \<open>Float32Array\<close> has a fixed length
  and starts filled with zeros; a write past its end is dropped.
\<close>

definition read_u8 :: "8 word list \<Rightarrow> nat \<Rightarrow> number" where
  "read_u8 d i = (if i < length d then Fin (real (unat (d ! i))) else NaN)"

definition write_f32 :: "number list \<Rightarrow> nat \<Rightarrow> number \<Rightarrow> number list" where
  "write_f32 a p v = (if p < length a then a[p := v] else a)"

function encode_loop :: "8 word list \<Rightarrow> nat \<Rightarrow> nat \<Rightarrow> number list \<Rightarrow> number list" where
  "encode_loop d i p float32Data =
     (if i < length d
      then encode_loop d (i + 4) (p + 3)
             (write_f32 (write_f32 (write_f32 float32Data
                p (read_u8 d i))
                (p + 1) (read_u8 d (i + 1)))
                (p + 2) (read_u8 d (i + 2)))
      else float32Data)"
  by pat_completeness auto
termination
  by (relation "measure (\<lambda>(d, i, p, float32Data). length d - i)") auto

declare encode_loop.simps [simp del]

definition tensor_encode :: "8 word list \<Rightarrow> number list" where
  "tensor_encode d = encode_loop d 0 0 (replicate (224 * 224 * 3) (Fin 0))"

subsection \<open>The result interpreter (\<open>analyzeImage\<close>, after step 4)\<close>

text \<open>
  \<open>Math.max(...probArray)\<close>: the running maximum starts at \<open>-Infinity\<close>; a \<open>NaN\<close>
  argument makes the result \<open>NaN\<close>. (The limit an engine puts on the number of arguments
  of one call, far above the seven scores of this classifier, is not modelled.)
\<close>

primrec math_max_from :: "number \<Rightarrow> number list \<Rightarrow> number" where
  "math_max_from highest [] = highest"
| "math_max_from highest (x # xs) =
     (if x = NaN then NaN
      else math_max_from (if num_gt x highest then x else highest) xs)"

definition Math_max :: "number list \<Rightarrow> number" where
  "Math_max xs = math_max_from NegInf xs"

text \<open>\<open>probArray.indexOf(maxScore)\<close>: the first index holding a strictly equal
  element, \<open>-1\<close> when there is none.\<close>

primrec index_from :: "int \<Rightarrow> number list \<Rightarrow> number \<Rightarrow> int" where
  "index_from k [] v = - 1"
| "index_from k (x # xs) v = (if strict_eq x v then k else index_from (k + 1) xs v)"

definition indexOf :: "number list \<Rightarrow> number \<Rightarrow> int" where
  "indexOf xs v = index_from 0 xs v"

definition LABELS :: "string list" where
  "LABELS =
     [''Bacterial Leaf Blight'',
      ''Brown Spot'',
      ''Healthy Rice Leaf'',
      ''Leaf Blast'',
      ''Leaf Scald'',
      ''NOT_A_RICE_LEAF'',
      ''Sheath Blight'']"

text \<open>\<open>LABELS[maxIndex]\<close>: \<open>undefined\<close> (here \<open>None\<close>) outside the array.\<close>

definition LABELS_at :: "int \<Rightarrow> string option" where
  "LABELS_at i = (if 0 \<le> i \<and> i < int (length LABELS) then Some (LABELS ! nat i) else None)"

text \<open>Decimal digits of a natural number.\<close>

definition digit_char :: "nat \<Rightarrow> char" where
  "digit_char n = ''0123456789'' ! (n mod 10)"

fun show_nat :: "nat \<Rightarrow> string" where
  "show_nat n = (if n < 10 then [digit_char n] else show_nat (n div 10) @ [digit_char n])"

declare show_nat.simps [simp del]

text \<open>
  \<open>Number.prototype.toFixed(2)\<close>, following the language definition: a value that is
  not finite prints as \<open>Number::toString\<close> does; otherwise the sign is split off; a
  magnitude of at least \<open>10^21\<close> prints as \<open>Number::toString\<close> does (exponent
  notation, not modelled: the parameter \<open>nts\<close>); below that, \<open>n\<close> is the integer
  for which \<open>n / 100\<close> is closest to the magnitude (the larger one of two), its
  digits are padded with zeros on the left to three and a point is put before the
  last two.
\<close>

definition to_fixed2 :: "(real \<Rightarrow> string) \<Rightarrow> number \<Rightarrow> string" where
  "to_fixed2 nts v =
     (case v of
        NaN \<Rightarrow> ''NaN''
      | PosInf \<Rightarrow> ''Infinity''
      | NegInf \<Rightarrow> ''-Infinity''
      | Fin x0 \<Rightarrow>
          (let s = (if x0 < 0 then ''-'' else '''');
               x = \<bar>x0\<bar>
           in if x \<ge> 10 ^ 21 then s @ nts x
              else
                (let n = nat \<lfloor>x * 100 + 1 / 2\<rfloor>;
                     m0 = show_nat n;
                     m = replicate (3 - length m0) CHR ''0'' @ m0;
                     k = length m
                 in s @ take (k - 2) m @ ''.'' @ drop (k - 2) m)))"

record prediction_data =
  label :: "string option"
  confidence :: string

text \<open>
  \<^verbatim>\<open>
  const probArray = Array.from(probabilities);
  const maxScore = Math.max(...probArray);
  const maxIndex = probArray.indexOf(maxScore);
  const label = LABELS[maxIndex];
  const resultData = { label: label, confidence: (maxScore * 100).toFixed(2) + '%' };
  \<close>
\<close>

definition interpret_scores :: "(real \<Rightarrow> string) \<Rightarrow> number list \<Rightarrow> prediction_data" where
  "interpret_scores nts probArray =
     (let maxScore = Math_max probArray;
          maxIndex = indexOf probArray maxScore
      in \<lparr>label = LABELS_at maxIndex,
          confidence = to_fixed2 nts (times100 maxScore) @ ''%''\<rparr>)"

text \<open>
  The earlier version of the screen reads the winning score back from the array:
  \<^verbatim>\<open>
  const maxIndex = probabilities.indexOf(Math.max(...probabilities));
  const confidence = probabilities[maxIndex];
  setResult({ label: LABELS[maxIndex], confidence: (confidence * 100).toFixed(2) + '%' });
  \<close>
  \<open>probabilities[-1]\<close> is \<open>undefined\<close>, and \<open>undefined * 100\<close> is \<open>NaN\<close>.
\<close>

definition element_at :: "number list \<Rightarrow> int \<Rightarrow> number" where
  "element_at xs i = (if 0 \<le> i \<and> i < int (length xs) then xs ! nat i else NaN)"

definition interpret_scores_v0 :: "(real \<Rightarrow> string) \<Rightarrow> number list \<Rightarrow> prediction_data" where
  "interpret_scores_v0 nts probabilities =
     (let maxIndex = indexOf probabilities (Math_max probabilities);
          confidence = element_at probabilities maxIndex
      in \<lparr>label = LABELS_at maxIndex,
          confidence = to_fixed2 nts (times100 confidence) @ ''%''\<rparr>)"

subsection \<open>Reading a confidence text\<close>

text \<open>
  What "a percentage with exactly two decimal places" means for a text, and the value
  such a text denotes: after an optional minus sign, one or more digits, a point, two
  digits and the percent sign.
\<close>

definition is_digit :: "char \<Rightarrow> bool" where
  "is_digit c = (c \<in> set ''0123456789'')"

definition digit_value :: "char \<Rightarrow> nat" where
  "digit_value c = of_char c - 48"

definition decimal_value :: "string \<Rightarrow> nat" where
  "decimal_value s = foldl (\<lambda>a c. 10 * a + digit_value c) 0 s"

definition unsigned_part :: "string \<Rightarrow> string" where
  "unsigned_part s = (if take 1 s = ''-'' then drop 1 s else s)"

definition two_decimal_percent :: "string \<Rightarrow> bool" where
  "two_decimal_percent s =
     (let u = unsigned_part s; n = length u
      in 5 \<le> n \<and> list_all is_digit (take (n - 4) u) \<and> take 1 (drop (n - 4) u) = ''.'' \<and>
         list_all is_digit (take 2 (drop (n - 3) u)) \<and> drop (n - 1) u = ''%'')"

text \<open>The magnitude denoted: the integer part plus the two decimals as hundredths.\<close>

definition percent_value :: "string \<Rightarrow> real" where
  "percent_value s =
     (let u = unsigned_part s; n = length u
      in real (decimal_value (take (n - 4) u)) +
         real (decimal_value (take 2 (drop (n - 3) u))) / 100)"

subsection \<open>Advice lookup\<close>

text \<open>
  \<open>DISEASE_ADVICE\<close> is an object literal used as a dictionary. Characters outside
  ASCII (the pictographs that open each advice) are given by their UTF-8 bytes.
\<close>

definition warning_sign :: string where
  "warning_sign = [CHR 0xE2, CHR 0x9A, CHR 0xA0, CHR 0xEF, CHR 0xB8, CHR 0x8F]"

definition check_mark :: string where
  "check_mark = [CHR 0xE2, CHR 0x9C, CHR 0x85]"

definition question_mark :: string where
  "question_mark = [CHR 0xE2, CHR 0x9D, CHR 0x93]"

definition DISEASE_ADVICE :: "(string \<times> string) list" where
  "DISEASE_ADVICE =
     [(''Bacterial Leaf Blight'',
         warning_sign @ '' Treatment: Use copper-based sprays. Avoid excessive Nitrogen.''),
      (''Brown Spot'',
         warning_sign @ '' Treatment: Improve soil fertility (Potassium/Calcium). Treat seeds.''),
      (''Leaf Blast'',
         warning_sign @ '' Treatment: Apply Tricyclazole. Maintain water level.''),
      (''Leaf Scald'',
         warning_sign @ '' Treatment: Use clean seeds. Avoid high Nitrogen.''),
      (''Sheath Blight'',
         warning_sign @ '' Treatment: Apply Azoxystrobin. Reduce plant density.''),
      (''Healthy Rice Leaf'',
         check_mark @ '' Good News: Your crop looks healthy!''),
      (''NOT_A_RICE_LEAF'',
         question_mark @ '' Unknown: Please try a clearer photo.'')]"

text \<open>
  The value of a property read \<open>obj[key]\<close> on such an object: the string stored under
  the key, else the member of that name which every object literal inherits from
  \<open>Object.prototype\<close> (a function or an object, never a string), else \<open>undefined\<close>.
\<close>

datatype jsval = Undefined | Str string | Inherited string

definition Object_prototype_keys :: "string list" where
  "Object_prototype_keys =
     [''constructor'', ''hasOwnProperty'', ''isPrototypeOf'', ''propertyIsEnumerable'',
      ''toLocaleString'', ''toString'', ''valueOf'',
      ''__proto__'', ''__defineGetter__'', ''__defineSetter__'',
      ''__lookupGetter__'', ''__lookupSetter__'']"

definition get_property :: "(string \<times> string) list \<Rightarrow> string \<Rightarrow> jsval" where
  "get_property obj key =
     (case map_of obj key of
        Some v \<Rightarrow> Str v
      | None \<Rightarrow> if key \<in> set Object_prototype_keys then Inherited key else Undefined)"

text \<open>\<open>a || b\<close>: \<open>a\<close> when it is truthy (\<open>undefined\<close> and the empty string are not).\<close>

definition truthy :: "jsval \<Rightarrow> bool" where
  "truthy v = (case v of Undefined \<Rightarrow> False | Str s \<Rightarrow> s \<noteq> [] | Inherited _ \<Rightarrow> True)"

definition js_or :: "jsval \<Rightarrow> jsval \<Rightarrow> jsval" where
  "js_or a b = (if truthy a then a else b)"

text \<open>A label used as a property key: \<open>undefined\<close> becomes the key \<open>"undefined"\<close>.\<close>

definition property_key :: "string option \<Rightarrow> string" where
  "property_key l = (case l of None \<Rightarrow> ''undefined'' | Some s \<Rightarrow> s)"

text \<open>\<open>DISEASE_ADVICE[predictionData.label] || "Consult an expert."\<close> in
  \<open>addToHistory\<close>.\<close>

definition advice_for_history :: "string option \<Rightarrow> jsval" where
  "advice_for_history l =
     js_or (get_property DISEASE_ADVICE (property_key l)) (Str ''Consult an expert.'')"

text \<open>\<open>DISEASE_ADVICE[prediction.label] || "Please consult an agricultural expert."\<close>
  in the result card.\<close>

definition advice_for_display :: "string option \<Rightarrow> jsval" where
  "advice_for_display l =
     js_or (get_property DISEASE_ADVICE (property_key l))
       (Str ''Please consult an agricultural expert.'')"

subsection \<open>Component state and environment\<close>

type_synonym uri = string

text \<open>A thrown value, identified by its message.\<close>

datatype exn = Exn string

text \<open>The loaded classifier: its \<open>run\<close> method on the single input tensor, returning
  the list of output tensors.\<close>

type_synonym model_handle = "number list \<Rightarrow> exn + number list list"

record history_entry =
  entry_id :: string
  entry_label :: "string option"
  entry_confidence :: string
  entry_imageUri :: uri
  entry_date :: string
  entry_advice :: jsval

text \<open>
  The text stored under the key \<open>leaf_history\<close>, by what the code makes of it: the
  empty text (falsy, read as no history), the JSON text of a list of entries, or a text
  on which \<open>JSON.parse\<close> or the spread of its result throws.
\<close>

datatype stored = EmptyText | HistoryJSON "history_entry list" | Unparsable

text \<open>
  The state hooks of \<open>App\<close>, the dialogs shown and the errors logged so far, and the
  item of the key-value store.
\<close>

record app_state =
  model :: "model_handle option"
  selectedImage :: "uri option"
  prediction :: "prediction_data option"
  loading :: bool
  alerts :: "(string \<times> string) list"
  console_errors :: "string list"
  leaf_history :: "stored option"

record env =
  manipulateAsync :: "uri \<Rightarrow> exn + uri"
  readAsStringAsync :: "uri \<Rightarrow> exn + string"
  jpeg_decode :: "string \<Rightarrow> exn + 8 word list"
  Number_toString :: "real \<Rightarrow> string"
  Date_now :: string
  Date_toLocaleString :: string
  getItem_rejects :: "exn option"
  setItem_rejects :: "exn option"

subsection \<open>\<open>handleImageResult\<close>\<close>

text \<open>
  \<^verbatim>\<open>
  if (!result.canceled) {
    setSelectedImage(result.assets[0].uri);
    setPrediction(null);
  }
  \<close>
\<close>

datatype picker_result = Canceled | Picked uri

definition handleImageResult :: "picker_result \<Rightarrow> app_state \<Rightarrow> app_state" where
  "handleImageResult result st =
     (case result of
        Canceled \<Rightarrow> st
      | Picked u \<Rightarrow> st\<lparr>selectedImage := Some u, prediction := None\<rparr>)"

subsection \<open>\<open>addToHistory\<close>\<close>

text \<open>
  The body of the \<open>try\<close> block: it ends normally in a new state, or throws, in which
  case the state reached at the throw is kept.
\<close>

definition parse_history :: "stored option \<Rightarrow> exn + history_entry list" where
  "parse_history existingHistory =
     (case existingHistory of
        None \<Rightarrow> Inr []
      | Some EmptyText \<Rightarrow> Inr []
      | Some (HistoryJSON historyArray) \<Rightarrow> Inr historyArray
      | Some Unparsable \<Rightarrow> Inl (Exn ''SyntaxError''))"

definition new_entry :: "env \<Rightarrow> prediction_data \<Rightarrow> uri \<Rightarrow> history_entry" where
  "new_entry e predictionData imageUri =
     \<lparr>entry_id = Date_now e,
      entry_label = label predictionData,
      entry_confidence = confidence predictionData,
      entry_imageUri = imageUri,
      entry_date = Date_toLocaleString e,
      entry_advice = advice_for_history (label predictionData)\<rparr>"

definition addToHistory_try ::
  "env \<Rightarrow> prediction_data \<Rightarrow> uri \<Rightarrow> app_state \<Rightarrow> (exn \<times> app_state) + app_state" where
  "addToHistory_try e predictionData imageUri st =
     (let newEntry = new_entry e predictionData imageUri in
      case getItem_rejects e of
        Some x \<Rightarrow> Inl (x, st)
      | None \<Rightarrow>
          (case parse_history (leaf_history st) of
             Inl x \<Rightarrow> Inl (x, st)
           | Inr historyArray \<Rightarrow>
               (let updatedHistory = newEntry # historyArray in
                case setItem_rejects e of
                  Some x \<Rightarrow> Inl (x, st)
                | None \<Rightarrow>
                    Inr (st\<lparr>leaf_history := Some (HistoryJSON (take 20 updatedHistory))\<rparr>))))"

text \<open>The whole function: \<open>Inl\<close> would be a rejected promise.\<close>

definition addToHistory ::
  "env \<Rightarrow> prediction_data \<Rightarrow> uri \<Rightarrow> app_state \<Rightarrow> (exn \<times> app_state) + app_state" where
  "addToHistory e predictionData imageUri st =
     (case addToHistory_try e predictionData imageUri st of
        Inr st' \<Rightarrow> Inr st'
      | Inl (Exn msg, st') \<Rightarrow>
          Inr (st'\<lparr>console_errors := console_errors st' @ [''Failed to save history: '' @ msg]\<rparr>))"

subsection \<open>\<open>analyzeImage\<close>\<close>

text \<open>\<open>Array.from(outputs[0])\<close>: with no first output, \<open>Array.from(undefined)\<close> throws.\<close>

definition first_output :: "number list list \<Rightarrow> exn + number list" where
  "first_output outputs =
     (case outputs of [] \<Rightarrow> Inl (Exn ''TypeError'') | probabilities # _ \<Rightarrow> Inr probabilities)"

text \<open>
  \<open>addToHistory(resultData, selectedImage)\<close> is called without \<open>await\<close>: the caller goes
  on with the state the call leaves, whatever the promise settles to.
\<close>

definition detached :: "(exn \<times> app_state) + app_state \<Rightarrow> app_state" where
  "detached r = (case r of Inr st \<Rightarrow> st | Inl (x, st) \<Rightarrow> st)"

text \<open>The body of the \<open>try\<close> block, with the \<open>model\<close> and \<open>selectedImage\<close> that the
  handler closed over.\<close>

definition analyze_try ::
  "env \<Rightarrow> model_handle \<Rightarrow> uri \<Rightarrow> app_state \<Rightarrow> (exn \<times> app_state) + app_state" where
  "analyze_try e run img st =
     (case manipulateAsync e img of
        Inl x \<Rightarrow> Inl (x, st)
      | Inr manipResult \<Rightarrow>
     (case readAsStringAsync e manipResult of
        Inl x \<Rightarrow> Inl (x, st)
      | Inr base64 \<Rightarrow>
     (case jpeg_decode e base64 of
        Inl x \<Rightarrow> Inl (x, st)
      | Inr rawData \<Rightarrow>
     (let float32Data = tensor_encode rawData in
      case run float32Data of
        Inl x \<Rightarrow> Inl (x, st)
      | Inr outputs \<Rightarrow>
     (case first_output outputs of
        Inl x \<Rightarrow> Inl (x, st)
      | Inr probArray \<Rightarrow>
     (let resultData = interpret_scores (Number_toString e) probArray;
          st1 = st\<lparr>prediction := Some resultData\<rparr>
      in Inr (detached (addToHistory e resultData img st1))))))))"

text \<open>\<open>try { ... } catch (error) { console.error(error); Alert.alert(...) }
  finally { setLoading(false) }\<close>.\<close>

definition analyze_run :: "env \<Rightarrow> model_handle \<Rightarrow> uri \<Rightarrow> app_state \<Rightarrow> app_state" where
  "analyze_run e run img st =
     (let st' =
        (case analyze_try e run img st of
           Inr st1 \<Rightarrow> st1
         | Inl (Exn msg, st1) \<Rightarrow>
             st1\<lparr>console_errors := console_errors st1 @ [msg],
                 alerts := alerts st1 @ [(''Error'', ''Could not analyze image.'')]\<rparr>)
      in st'\<lparr>loading := False\<rparr>)"

text \<open>The guard \<open>!model || !selectedImage\<close>: a missing handle, no image, or the empty
  string as image.\<close>

definition not_ready :: "app_state \<Rightarrow> bool" where
  "not_ready st = (model st = None \<or> selectedImage st = None \<or> selectedImage st = Some [])"

definition analyzeImage :: "env \<Rightarrow> app_state \<Rightarrow> app_state" where
  "analyzeImage e st =
     (if not_ready st
      then st\<lparr>alerts := alerts st @ [(''Error'', ''Model not ready yet.'')]\<rparr>
      else analyze_run e (the (model st)) (the (selectedImage st)) (st\<lparr>loading := True\<rparr>))"

subsection \<open>Events of the screen\<close>

text \<open>
  \<open>analyzeImage\<close> is an \<open>async\<close> function: from its first \<open>await\<close> on, other handlers
  run before it resumes. A configuration is the component state together with the
  suspended call, if any: the \<open>model\<close> and \<open>selectedImage\<close> it closed over. The
  Diagnose button is disabled while \<open>loading\<close> holds; the Gallery and Camera buttons
  are always enabled. \<open>ModelLoaded\<close> is the \<open>setModel(loadedModel)\<close> of the loading
  effect.
\<close>

datatype event =
  ModelLoaded model_handle | PickerReturns picker_result | DiagnosePressed | AnalysisResumes

type_synonym config = "app_state \<times> (model_handle \<times> uri) option"

definition step :: "env \<Rightarrow> event \<Rightarrow> config \<Rightarrow> config" where
  "step e ev c =
     (case c of (st, suspended) \<Rightarrow>
        (case ev of
           ModelLoaded loadedModel \<Rightarrow> (st\<lparr>model := Some loadedModel\<rparr>, suspended)
         | PickerReturns result \<Rightarrow> (handleImageResult result st, suspended)
         | DiagnosePressed \<Rightarrow>
             if loading st then (st, suspended)
             else if not_ready st
               then (st\<lparr>alerts := alerts st @ [(''Error'', ''Model not ready yet.'')]\<rparr>, suspended)
               else (st\<lparr>loading := True\<rparr>, Some (the (model st), the (selectedImage st)))
         | AnalysisResumes \<Rightarrow>
             (case suspended of
                None \<Rightarrow> (st, None)
              | Some (run, img) \<Rightarrow> (analyze_run e run img st, None))))"

definition run_events :: "env \<Rightarrow> event list \<Rightarrow> config \<Rightarrow> config" where
  "run_events e evs c = foldl (\<lambda>c ev. step e ev c) c evs"

text \<open>The state of the first render: every hook at its initial value, nothing stored.\<close>

definition initial_state :: app_state where
  "initial_state =
     \<lparr>model = None, selectedImage = None, prediction = None, loading = False,
      alerts = [], console_errors = [], leaf_history = None\<rparr>"

text \<open>The state once the model has loaded and an image has been chosen.\<close>

definition ready_state :: "model_handle \<Rightarrow> uri \<Rightarrow> app_state" where
  "ready_state loadedModel u = initial_state\<lparr>model := Some loadedModel, selectedImage := Some u\<rparr>"

subsection \<open>Sample environments\<close>

text \<open>Concrete library behaviours, used where a statement is evaluated on an input.\<close>

definition sample_toString :: "real \<Rightarrow> string" where
  "sample_toString x = ''1e+21''"

definition sample_env ::
  "(string \<Rightarrow> exn + 8 word list) \<Rightarrow> exn option \<Rightarrow> exn option \<Rightarrow> env" where
  "sample_env decode get_rejects set_rejects =
     \<lparr>manipulateAsync = (\<lambda>u. Inr (''resized-'' @ u)),
      readAsStringAsync = (\<lambda>u. Inr (''base64-of-'' @ u)),
      jpeg_decode = decode,
      Number_toString = sample_toString,
      Date_now = ''1700000000000'',
      Date_toLocaleString = ''11/14/2023, 10:13:20 PM'',
      getItem_rejects = get_rejects,
      setItem_rejects = set_rejects\<rparr>"

text \<open>A decoder that yields 224 x 224 x 4 bytes, all 0 for one file and all 255 for
  every other file; one that yields a single pixel; and one that throws.\<close>

definition sample_decode :: "string \<Rightarrow> exn + 8 word list" where
  "sample_decode base64 =
     Inr (replicate 200704 (if base64 = ''base64-of-resized-dark.jpg'' then 0 else 255))"

definition one_pixel_decode :: "string \<Rightarrow> exn + 8 word list" where
  "one_pixel_decode base64 = Inr [10, 20, 30, 255]"

definition failing_decode :: "string \<Rightarrow> exn + 8 word list" where
  "failing_decode base64 = Inl (Exn ''SOI not found'')"

text \<open>A classifier with one fixed output, and one that tells the first image from the
  others by the first tensor entry.\<close>

definition constant_model :: "number list \<Rightarrow> model_handle" where
  "constant_model scores t = Inr [scores]"

definition brightness_model :: model_handle where
  "brightness_model t =
     Inr [if take 1 t = [Fin 0]
          then [Fin (3 / 4), Fin (1 / 4), Fin 0, Fin 0, Fin 0, Fin 0, Fin 0]
          else [Fin (1 / 4), Fin 0, Fin 0, Fin (3 / 4), Fin 0, Fin 0, Fin 0]]"

definition sample_entry :: "string \<Rightarrow> history_entry" where
  "sample_entry i =
     \<lparr>entry_id = i, entry_label = Some ''Brown Spot'', entry_confidence = ''75.00%'',
      entry_imageUri = ''old.jpg'', entry_date = ''11/13/2023, 9:00:00 AM'',
      entry_advice = advice_for_history (Some ''Brown Spot'')\<rparr>"

section \<open>The tensor encoder\<close>

lemma length_write_f32: "length (write_f32 a p v) = length a"
  by (simp add: write_f32_def)

lemma nth_write_f32: "j < length a \<Longrightarrow> write_f32 a p v ! j = (if j = p then v else a ! j)"
  by (simp add: write_f32_def)

lemma length_encode_loop: "length (encode_loop d i p out) = length out"
proof (induction d i p out rule: encode_loop.induct)
  case (1 d i p out)
  show ?case
  proof (cases "i < length d")
    case True
    then show ?thesis
      using "1.IH" by (subst encode_loop.simps) (simp add: length_write_f32)
  next
    case False
    then show ?thesis by (subst encode_loop.simps) simp
  qed
qed

lemma nth_encode_loop:
  "j < length out \<Longrightarrow>
   encode_loop d i p out ! j =
     (if p \<le> j \<and> i + 4 * ((j - p) div 3) < length d
      then read_u8 d (i + 4 * ((j - p) div 3) + (j - p) mod 3)
      else out ! j)"
proof (induction d i p out rule: encode_loop.induct)
  case (1 d i p out)
  show ?case
  proof (cases "i < length d")
    case False
    then show ?thesis by (subst encode_loop.simps) simp
  next
    case True
    let ?out' = "write_f32 (write_f32 (write_f32 out p (read_u8 d i))
                (p + 1) (read_u8 d (i + 1))) (p + 2) (read_u8 d (i + 2))"
    have len: "j < length ?out'" using "1.prems" by (simp add: length_write_f32)
    have step: "encode_loop d i p out = encode_loop d (i + 4) (p + 3) ?out'"
      using True by (subst encode_loop.simps) simp
    have IH: "encode_loop d (i + 4) (p + 3) ?out' ! j =
       (if p + 3 \<le> j \<and> i + 4 + 4 * ((j - (p + 3)) div 3) < length d
        then read_u8 d (i + 4 + 4 * ((j - (p + 3)) div 3) + (j - (p + 3)) mod 3)
        else ?out' ! j)"
      using "1.IH"[OF True len] .
    show ?thesis
    proof (cases "p + 3 \<le> j")
      case far: True
      obtain t where t: "j = p + 3 + t" using far le_Suc_ex by blast
      have d3: "(j - p) div 3 = Suc (t div 3)" "(j - p) mod 3 = t mod 3"
        "(j - (p + 3)) div 3 = t div 3" "(j - (p + 3)) mod 3 = t mod 3"
        using t by simp_all
      have old: "?out' ! j = out ! j"
        using "1.prems" far by (simp add: nth_write_f32 length_write_f32)
      show ?thesis unfolding step IH d3 using far old by (simp add: algebra_simps)
    next
      case near: False
      have new: "?out' ! j = (if p \<le> j then read_u8 d (i + (j - p)) else out ! j)"
      proof -
        consider "j < p" | "j = p" | "j = p + 1" | "j = p + 2" using near by linarith
        then show ?thesis
          using "1.prems" by cases (simp_all add: nth_write_f32 length_write_f32)
      qed
      have "p \<le> j \<Longrightarrow> (j - p) div 3 = 0 \<and> (j - p) mod 3 = j - p" using near by simp
      then show ?thesis unfolding step IH using near new True by auto
    qed
  qed
qed


lemma pixel_index:
  fixes j :: nat
  assumes "j < 150528"
  shows "4 * (j div 3) < 200704" and "4 * (j div 3) + j mod 3 < 200704"
    and "(4 * (j div 3) + j mod 3) mod 4 \<noteq> 3"
proof -
  have a: "j div 3 < 50176" using assms by simp
  have b: "j mod 3 < 3" by simp
  show "4 * (j div 3) < 200704" using a by simp
  show "4 * (j div 3) + j mod 3 < 200704" using a b by linarith
  have "(4 * (j div 3) + j mod 3) mod 4 = j mod 3" using b by simp
  then show "(4 * (j div 3) + j mod 3) mod 4 \<noteq> 3" using b by simp
qed

lemma channel_index:
  fixes k ch :: nat
  assumes "ch < 3"
  shows "(3 * k + ch) div 3 = k" and "(3 * k + ch) mod 3 = ch"
  using assms by simp_all

lemma length_tensor_encode: "length (tensor_encode d) = 150528"
  by (simp add: tensor_encode_def length_encode_loop)

lemma nth_tensor_encode:
  assumes "j < 150528"
  shows "tensor_encode d ! j =
     (if 4 * (j div 3) < length d then read_u8 d (4 * (j div 3) + j mod 3) else Fin 0)"
proof -
  have "encode_loop d 0 0 (replicate 150528 (Fin 0)) ! j =
     (if 0 \<le> j \<and> 0 + 4 * ((j - 0) div 3) < length d
      then read_u8 d (0 + 4 * ((j - 0) div 3) + (j - 0) mod 3)
      else replicate 150528 (Fin 0) ! j)"
    by (rule nth_encode_loop) (simp add: assms)
  then show ?thesis using assms by (simp add: tensor_encode_def)
qed

lemma tensor_encode_take: "tensor_encode (take 200704 d) = tensor_encode d"
proof (rule nth_equalityI)
  show "length (tensor_encode (take 200704 d)) = length (tensor_encode d)"
    by (simp add: length_tensor_encode)
next
  fix j assume "j < length (tensor_encode (take 200704 d))"
  then have j: "j < 150528" by (simp add: length_tensor_encode)
  let ?i = "4 * (j div 3) + j mod 3"
  have i: "?i < 200704" "4 * (j div 3) < 200704" using pixel_index[OF j] by simp_all
  have r: "read_u8 (take 200704 d) ?i = read_u8 d ?i"
    using i(1) by (simp add: read_u8_def)
  have c: "4 * (j div 3) < length (take 200704 d) \<longleftrightarrow> 4 * (j div 3) < length d"
    using i(2) by simp
  show "tensor_encode (take 200704 d) ! j = tensor_encode d ! j"
    unfolding nth_tensor_encode[OF j] r c ..
qed

text \<open>
  Claim C1. For a pixel buffer of 224 x 224 x 4 bytes (RGBA, row-major), the encoder
  returns a tensor of exactly 150528 entries; entry \<open>j\<close> is byte \<open>j mod 3\<close> (red,
  green, blue) of pixel \<open>j div 3\<close>, as the number the byte denotes (0 to 255, not
  rescaled); in terms of rows and columns, the three entries of the pixel at
  \<open>(row, col)\<close> are at \<open>3 * (224 * row + col)\<close> and the two places after it; and the
  alpha bytes (those at positions \<open>4 * k + 3\<close>) have no influence on the tensor.
\<close>

theorem tensor_encode_rgb:
  assumes "length d = 224 * 224 * 4"
  shows "length (tensor_encode d) = 150528 \<and>
    (\<forall>j<150528. tensor_encode d ! j = Fin (real (unat (d ! (4 * (j div 3) + j mod 3))))) \<and>
    (\<forall>row<224. \<forall>col<224. \<forall>ch<3.
       tensor_encode d ! (3 * (224 * row + col) + ch) =
         Fin (real (unat (d ! (4 * (224 * row + col) + ch))))) \<and>
    (\<forall>d'. length d' = length d \<and> (\<forall>i<length d. i mod 4 \<noteq> 3 \<longrightarrow> d' ! i = d ! i) \<longrightarrow>
       tensor_encode d' = tensor_encode d)"
proof -
  have len: "length d = 200704" using assms by simp
  have px: "tensor_encode d' ! j = Fin (real (unat (d' ! (4 * (j div 3) + j mod 3))))"
    if "j < 150528" "length d' = 200704" for j d'
  proof -
    show ?thesis using that pixel_index[OF that(1)] by (simp add: nth_tensor_encode read_u8_def)
  qed
  have rc: "tensor_encode d ! (3 * (224 * row + col) + ch) =
         Fin (real (unat (d ! (4 * (224 * row + col) + ch))))"
    if "row < 224" "col < 224" "ch < 3" for row col ch :: nat
  proof -
    let ?k = "224 * row + col"
    have k: "?k < 50176" using that by simp
    have j: "3 * ?k + ch < 150528" using k that(3) by simp
    show ?thesis using px[OF j len] by (simp only: channel_index[OF that(3)])
  qed
  have alpha: "tensor_encode d' = tensor_encode d"
    if eq: "length d' = length d" and same: "\<forall>i<length d. i mod 4 \<noteq> 3 \<longrightarrow> d' ! i = d ! i" for d'
  proof (rule nth_equalityI)
    show "length (tensor_encode d') = length (tensor_encode d)"
      by (simp add: length_tensor_encode)
  next
    fix j assume "j < length (tensor_encode d')"
    then have j: "j < 150528" by (simp add: length_tensor_encode)
    let ?i = "4 * (j div 3) + j mod 3"
    have "?i < 200704" "?i mod 4 \<noteq> 3" using pixel_index[OF j] by simp_all
    then have "d' ! ?i = d ! ?i" using same len by simp
    then show "tensor_encode d' ! j = tensor_encode d ! j"
      using px[OF j len] px[OF j] eq len by simp
  qed
  show ?thesis
  proof (intro conjI allI impI)
    show "length (tensor_encode d) = 150528" by (rule length_tensor_encode)
  next
    fix j :: nat assume "j < 150528"
    then show "tensor_encode d ! j = Fin (real (unat (d ! (4 * (j div 3) + j mod 3))))"
      using px[OF _ len] by simp
  next
    fix row col ch :: nat assume "row < 224" "col < 224" "ch < 3"
    then show "tensor_encode d ! (3 * (224 * row + col) + ch) =
         Fin (real (unat (d ! (4 * (224 * row + col) + ch))))" by (rule rc)
  next
    fix d' assume "length d' = length d \<and> (\<forall>i<length d. i mod 4 \<noteq> 3 \<longrightarrow> d' ! i = d ! i)"
    then show "tensor_encode d' = tensor_encode d" using alpha by blast
  qed
qed

theorem tensor_encode_rgb_witness:
  "length (replicate 200704 (7 :: 8 word)) = 224 * 224 * 4 \<and>
   length (tensor_encode (replicate 200704 7)) = 150528 \<and>
   tensor_encode (replicate 200704 7) ! 679 = Fin 7"
proof -
  let ?d = "replicate 200704 (7 :: 8 word)"
  have h: "length ?d = 224 * 224 * 4" by simp
  note T = tensor_encode_rgb[OF h]
  have l: "length (tensor_encode ?d) = 150528" using T by (rule conjunct1)
  have "\<forall>j<150528. tensor_encode ?d ! j = Fin (real (unat (?d ! (4 * (j div 3) + j mod 3))))"
    using T by (elim conjE)
  then have "tensor_encode ?d ! 679 = Fin (real (unat (?d ! (4 * (679 div 3) + 679 mod 3))))"
    by simp
  then have "tensor_encode ?d ! 679 = Fin 7" by simp
  then show ?thesis using h l by simp
qed

section \<open>Numbers: maximum and first index\<close>

lemma num_le_refl: "a \<noteq> NaN \<Longrightarrow> num_le a a"
  by (simp add: num_le_def strict_eq_def)

lemma num_le_total: "a \<noteq> NaN \<Longrightarrow> b \<noteq> NaN \<Longrightarrow> \<not> num_gt a b \<Longrightarrow> num_le a b"
  by (cases a; cases b) (auto simp add: num_le_def num_gt_def strict_eq_def)

lemma num_gt_le: "num_gt a b \<Longrightarrow> num_le b a"
  by (simp add: num_le_def num_gt_def)

lemma num_le_trans: "num_le a b \<Longrightarrow> num_le b c \<Longrightarrow> num_le a c"
  by (cases a; cases b; cases c) (auto simp add: num_le_def strict_eq_def)

lemma num_le_neq_lt: "num_le a b \<Longrightarrow> a \<noteq> b \<Longrightarrow> num_lt a b"
  by (auto simp add: num_le_def strict_eq_def)

lemma num_le_NegInf: "num_le a NegInf \<Longrightarrow> a = NegInf"
  by (cases a) (auto simp add: num_le_def strict_eq_def)

lemma math_max_from_NaN: "NaN \<in> set xs \<Longrightarrow> math_max_from h xs = NaN"
  by (induction xs arbitrary: h) auto

lemma math_max_from_max:
  assumes "NaN \<notin> set xs" and "h \<noteq> NaN"
  shows "(math_max_from h xs = h \<or> math_max_from h xs \<in> set xs) \<and>
         num_le h (math_max_from h xs) \<and> (\<forall>x\<in>set xs. num_le x (math_max_from h xs))"
  using assms
proof (induction xs arbitrary: h)
  case Nil
  then show ?case by (simp add: num_le_refl)
next
  case (Cons x xs)
  have x: "x \<noteq> NaN" and xs: "NaN \<notin> set xs" using Cons.prems(1) by auto
  let ?h = "if num_gt x h then x else h"
  have h': "?h \<noteq> NaN" using x Cons.prems(2) by simp
  have hh: "num_le h ?h" using Cons.prems(2) by (simp add: num_gt_le num_le_refl)
  have xh: "num_le x ?h" using x Cons.prems(2) by (simp add: num_le_total num_le_refl)
  note IH = Cons.IH[OF xs h']
  have eq: "math_max_from h (x # xs) = math_max_from ?h xs" using x by simp
  have IH1: "math_max_from ?h xs = ?h \<or> math_max_from ?h xs \<in> set xs"
    and IH2: "num_le ?h (math_max_from ?h xs)"
    and IH3: "\<forall>y\<in>set xs. num_le y (math_max_from ?h xs)"
    using IH by simp_all
  show ?case unfolding eq
  proof (intro conjI ballI)
    show "math_max_from ?h xs = h \<or> math_max_from ?h xs \<in> set (x # xs)"
    proof (cases "num_gt x h")
      case True
      then show ?thesis using IH1 by auto
    next
      case False
      then show ?thesis using IH1 by auto
    qed
    show "num_le h (math_max_from ?h xs)" by (rule num_le_trans[OF hh IH2])
    fix y assume "y \<in> set (x # xs)"
    then consider "y = x" | "y \<in> set xs" by auto
    then show "num_le y (math_max_from ?h xs)"
    proof cases
      case 1
      then show ?thesis using num_le_trans[OF xh IH2] by simp
    next
      case 2
      then show ?thesis using IH3 by simp
    qed
  qed
qed

lemma Math_max_NaN: "NaN \<in> set xs \<Longrightarrow> Math_max xs = NaN"
  by (simp add: Math_max_def math_max_from_NaN)

lemma Math_max_empty: "Math_max [] = NegInf"
  by (simp add: Math_max_def)

lemma Math_max_max:
  assumes "NaN \<notin> set xs" and "xs \<noteq> []"
  shows "Math_max xs \<in> set xs" and "\<forall>x\<in>set xs. num_le x (Math_max xs)"
proof -
  have m: "(Math_max xs = NegInf \<or> Math_max xs \<in> set xs) \<and>
     num_le NegInf (Math_max xs) \<and> (\<forall>x\<in>set xs. num_le x (Math_max xs))"
    unfolding Math_max_def using math_max_from_max[OF assms(1), of NegInf] by simp
  show le: "\<forall>x\<in>set xs. num_le x (Math_max xs)" using m by simp
  show "Math_max xs \<in> set xs"
  proof (cases "Math_max xs = NegInf")
    case True
    obtain x where x: "x \<in> set xs" using assms(2) by (cases xs) auto
    then have "num_le x NegInf" using le True by simp
    then show ?thesis using x True num_le_NegInf by auto
  next
    case False
    then show ?thesis using m by simp
  qed
qed

lemma Math_max_Fin:
  assumes "Math_max xs = Fin m"
  shows "NaN \<notin> set xs" and "xs \<noteq> []"
  using assms Math_max_NaN Math_max_empty by auto

lemma index_from_first:
  assumes "v \<in> set xs" and "v \<noteq> NaN"
  shows "\<exists>i<length xs. index_from k xs v = k + int i \<and> xs ! i = v \<and> (\<forall>j<i. xs ! j \<noteq> v)"
  using assms(1)
proof (induction xs arbitrary: k)
  case Nil
  then show ?case by simp
next
  case (Cons x xs)
  show ?case
  proof (cases "x = v")
    case True
    then have "index_from k (x # xs) v = k + int 0" using assms(2) by (simp add: strict_eq_def)
    then show ?thesis using True by force
  next
    case False
    then have "v \<in> set xs" using Cons.prems by simp
    then obtain i where i: "i < length xs" "index_from (k + 1) xs v = k + 1 + int i"
      "xs ! i = v" "\<forall>j<i. xs ! j \<noteq> v"
      using Cons.IH by blast
    have "index_from k (x # xs) v = k + int (Suc i)"
      using False i(2) by (simp add: strict_eq_def)
    moreover have "\<forall>j<Suc i. (x # xs) ! j \<noteq> v"
      using False i(4) by (auto simp add: nth_Cons split: nat.splits)
    ultimately show ?thesis using i(1,3) by (intro exI[of _ "Suc i"]) simp
  qed
qed

lemma argmax_first:
  assumes "NaN \<notin> set v" and "v \<noteq> []"
  shows "\<exists>i<length v. indexOf v (Math_max v) = int i \<and> v ! i = Math_max v \<and>
           (\<forall>j<length v. num_le (v ! j) (v ! i)) \<and> (\<forall>j<i. num_lt (v ! j) (v ! i))"
proof -
  have mem: "Math_max v \<in> set v" and le: "\<forall>x\<in>set v. num_le x (Math_max v)"
    using Math_max_max[OF assms] by simp_all
  have nn: "Math_max v \<noteq> NaN" using mem assms(1) by auto
  obtain i where i: "i < length v" "index_from 0 v (Math_max v) = 0 + int i"
    "v ! i = Math_max v" "\<forall>j<i. v ! j \<noteq> Math_max v"
    using index_from_first[OF mem nn, of 0] by blast
  have a: "\<forall>j<length v. num_le (v ! j) (v ! i)" using le i(3) by simp
  have b: "\<forall>j<i. num_lt (v ! j) (v ! i)"
    using a i(1,3,4) by (auto intro!: num_le_neq_lt)
  show ?thesis using i a b by (auto simp add: indexOf_def)
qed

section \<open>Saving history and running a request\<close>

lemma addToHistory_try_Inl: "addToHistory_try e pd u st = Inl (x, s) \<Longrightarrow> s = st"
  by (auto simp add: addToHistory_try_def Let_def split: option.splits sum.splits)

lemma addToHistory_try_Inr:
  "addToHistory_try e pd u st = Inr s \<longleftrightarrow>
     getItem_rejects e = None \<and> setItem_rejects e = None \<and>
     (\<exists>old. parse_history (leaf_history st) = Inr old \<and>
        s = st\<lparr>leaf_history := Some (HistoryJSON (take 20 (new_entry e pd u # old)))\<rparr>)"
  by (auto simp add: addToHistory_try_def Let_def simp del: take_Cons_numeral
      split: option.splits sum.splits)

lemma addToHistory_cases:
  obtains (saved) old where "getItem_rejects e = None" "setItem_rejects e = None"
      "parse_history (leaf_history st) = Inr old"
      "addToHistory e pd u st =
         Inr (st\<lparr>leaf_history := Some (HistoryJSON (take 20 (new_entry e pd u # old)))\<rparr>)"
  | (failed) msg where "addToHistory_try e pd u st = Inl (Exn msg, st)"
      "addToHistory e pd u st =
         Inr (st\<lparr>console_errors := console_errors st @ [''Failed to save history: '' @ msg]\<rparr>)"
proof (cases "addToHistory_try e pd u st")
  case (Inr s)
  then obtain old where old: "getItem_rejects e = None" "setItem_rejects e = None"
      "parse_history (leaf_history st) = Inr old"
      "s = st\<lparr>leaf_history := Some (HistoryJSON (take 20 (new_entry e pd u # old)))\<rparr>"
    unfolding addToHistory_try_Inr by blast
  have "addToHistory e pd u st = Inr s" using Inr by (simp add: addToHistory_def)
  then show ?thesis using saved[OF old(1,2,3)] old(4) by blast
next
  case (Inl p)
  obtain x s where p: "p = (x, s)" by (cases p)
  obtain msg where x: "x = Exn msg" by (cases x)
  have "s = st" using Inl p addToHistory_try_Inl by blast
  then show ?thesis using failed[of msg] Inl p x by (simp add: addToHistory_def)
qed

lemma addToHistory_frame:
  "\<exists>s. addToHistory e pd u st = Inr s \<and> prediction s = prediction st \<and>
     alerts s = alerts st \<and> selectedImage s = selectedImage st \<and> model s = model st \<and>
     loading s = loading st"
  by (cases e pd u st rule: addToHistory_cases) auto

lemma detached_addToHistory:
  "prediction (detached (addToHistory e pd u st)) = prediction st"
  "alerts (detached (addToHistory e pd u st)) = alerts st"
  "selectedImage (detached (addToHistory e pd u st)) = selectedImage st"
  "model (detached (addToHistory e pd u st)) = model st"
  "loading (detached (addToHistory e pd u st)) = loading st"
  using addToHistory_frame[of e pd u st] by (auto simp add: detached_def)

lemma analyze_try_Inl: "analyze_try e run img st = Inl (x, s) \<Longrightarrow> s = st"
  by (auto simp add: analyze_try_def Let_def split: sum.splits)

lemma analyze_try_success:
  assumes "manipulateAsync e img = Inr m" and "readAsStringAsync e m = Inr b"
    and "jpeg_decode e b = Inr d" and "run (tensor_encode d) = Inr (v # rest)"
  shows "analyze_try e run img st =
     Inr (detached (addToHistory e (interpret_scores (Number_toString e) v) img
            (st\<lparr>prediction := Some (interpret_scores (Number_toString e) v)\<rparr>)))"
  using assms by (simp add: analyze_try_def first_output_def Let_def)

lemma analyze_try_throws_iff:
  "isl (analyze_try e run img st) \<longleftrightarrow>
     (case manipulateAsync e img of Inl x \<Rightarrow> True | Inr m \<Rightarrow>
      case readAsStringAsync e m of Inl x \<Rightarrow> True | Inr b \<Rightarrow>
      case jpeg_decode e b of Inl x \<Rightarrow> True | Inr d \<Rightarrow>
      case run (tensor_encode d) of Inl x \<Rightarrow> True | Inr outputs \<Rightarrow> outputs = [])"
  by (auto simp add: analyze_try_def first_output_def Let_def split: sum.splits list.splits)

lemma analyze_run_failure:
  assumes "analyze_try e run img st = Inl (Exn msg, s)"
  shows "analyze_run e run img st =
     st\<lparr>console_errors := console_errors st @ [msg],
        alerts := alerts st @ [(''Error'', ''Could not analyze image.'')],
        loading := False\<rparr>"
proof -
  have "s = st" using assms by (rule analyze_try_Inl)
  then show ?thesis using assms by (simp add: analyze_run_def)
qed

lemma analyze_run_success:
  assumes "manipulateAsync e img = Inr m" and "readAsStringAsync e m = Inr b"
    and "jpeg_decode e b = Inr d" and "run (tensor_encode d) = Inr (v # rest)"
  shows "prediction (analyze_run e run img st) = Some (interpret_scores (Number_toString e) v)"
    and "alerts (analyze_run e run img st) = alerts st"
    and "selectedImage (analyze_run e run img st) = selectedImage st"
    and "loading (analyze_run e run img st) = False"
  by (simp_all add: analyze_run_def
      analyze_try_success[where run = run, OF assms] detached_addToHistory)

section \<open>Digits and \<open>toFixed\<close>\<close>

lemma digit_char_cases:
  obtains "n mod 10 = 0" "digit_char n = CHR ''0''" | "n mod 10 = 1" "digit_char n = CHR ''1''"
  | "n mod 10 = 2" "digit_char n = CHR ''2''" | "n mod 10 = 3" "digit_char n = CHR ''3''"
  | "n mod 10 = 4" "digit_char n = CHR ''4''" | "n mod 10 = 5" "digit_char n = CHR ''5''"
  | "n mod 10 = 6" "digit_char n = CHR ''6''" | "n mod 10 = 7" "digit_char n = CHR ''7''"
  | "n mod 10 = 8" "digit_char n = CHR ''8''" | "n mod 10 = 9" "digit_char n = CHR ''9''"
proof -
  have "k < 10 \<Longrightarrow> k = 0 \<or> k = 1 \<or> k = 2 \<or> k = 3 \<or> k = 4 \<or> k = 5 \<or> k = 6 \<or> k = 7 \<or>
    k = 8 \<or> k = 9" for k :: nat by presburger
  then consider "n mod 10 = 0" | "n mod 10 = 1" | "n mod 10 = 2" | "n mod 10 = 3" | "n mod 10 = 4"
    | "n mod 10 = 5" | "n mod 10 = 6" | "n mod 10 = 7" | "n mod 10 = 8" | "n mod 10 = 9"
    using mod_less_divisor[of 10 n] by fastforce
  then show ?thesis using that by cases (simp_all add: digit_char_def)
qed

lemma is_digit_digit_char: "is_digit (digit_char n)"
  by (cases n rule: digit_char_cases) (simp_all add: is_digit_def)

lemma digit_value_digit_char: "digit_value (digit_char n) = n mod 10"
  by (cases n rule: digit_char_cases) (simp_all add: digit_value_def)

lemma show_nat_small: "n < 10 \<Longrightarrow> show_nat n = [digit_char n]"
  by (subst show_nat.simps) simp

lemma show_nat_step: "10 \<le> n \<Longrightarrow> show_nat n = show_nat (n div 10) @ [digit_char n]"
  by (subst show_nat.simps) simp

lemma show_nat_not_Nil: "show_nat n \<noteq> []"
  by (cases "n < 10") (simp_all add: show_nat_small show_nat_step)

lemma length_show_nat: "Suc 0 \<le> length (show_nat n)"
  using show_nat_not_Nil[of n] by (cases "show_nat n") simp_all

lemma show_nat_two: "100 \<le> n \<Longrightarrow>
    show_nat n = show_nat (n div 100) @ [digit_char (n div 10), digit_char n]"
proof -
  assume n: "100 \<le> n"
  then have "10 \<le> n div 10" by simp
  then have "show_nat (n div 10) = show_nat (n div 10 div 10) @ [digit_char (n div 10)]"
    by (rule show_nat_step)
  moreover have "n div 10 div 10 = n div 100" by (simp add: div_mult2_eq[symmetric])
  ultimately show ?thesis using n by (simp add: show_nat_step)
qed

lemma show_nat_digits: "list_all is_digit (show_nat n)"
proof (induction n rule: show_nat.induct)
  case (1 n)
  show ?case
  proof (cases "n < 10")
    case True
    then show ?thesis by (simp add: show_nat_small is_digit_digit_char)
  next
    case False
    then show ?thesis using 1 by (simp add: show_nat_step is_digit_digit_char)
  qed
qed

lemma decimal_value_snoc: "decimal_value (s @ [c]) = 10 * decimal_value s + digit_value c"
  by (simp add: decimal_value_def)

lemma decimal_value_show_nat: "decimal_value (show_nat n) = n"
proof (induction n rule: show_nat.induct)
  case (1 n)
  show ?case
  proof (cases "n < 10")
    case True
    then show ?thesis
      by (simp add: show_nat_small decimal_value_def digit_value_digit_char)
  next
    case False
    then have "decimal_value (show_nat n) = 10 * (n div 10) + n mod 10"
      using 1 by (simp add: show_nat_step decimal_value_snoc digit_value_digit_char)
    then show ?thesis by simp
  qed
qed

lemma decimal_value_two: "decimal_value [digit_char a, digit_char b] = 10 * (a mod 10) + b mod 10"
  by (simp add: decimal_value_def digit_value_digit_char)

text \<open>The fixed-point branch of \<open>toFixed(2)\<close>, in closed form.\<close>

lemma to_fixed2_Fin:
  assumes "\<bar>x\<bar> < 10 ^ 21"
  shows "to_fixed2 nts (Fin x) =
     (if x < 0 then ''-'' else '''') @ show_nat (nat \<lfloor>\<bar>x\<bar> * 100 + 1 / 2\<rfloor> div 100) @ ''.'' @
       [digit_char (nat \<lfloor>\<bar>x\<bar> * 100 + 1 / 2\<rfloor> div 10), digit_char (nat \<lfloor>\<bar>x\<bar> * 100 + 1 / 2\<rfloor>)]"
proof -
  define n where "n = nat \<lfloor>\<bar>x\<bar> * 100 + 1 / 2\<rfloor>"
  define m where "m = replicate (3 - length (show_nat n)) CHR ''0'' @ show_nat n"
  have split: "take (length m - 2) m = show_nat (n div 100) \<and>
               drop (length m - 2) m = [digit_char (n div 10), digit_char n]"
  proof -
    consider "n < 10" | "10 \<le> n" "n < 100" | "100 \<le> n" by linarith
    then show ?thesis
    proof cases
      case 1
      then have "m = ''00'' @ [digit_char n]" "n div 100 = 0" "n div 10 = 0"
        by (simp_all add: m_def show_nat_small numeral_3_eq_3)
      then show ?thesis by (simp add: show_nat_small digit_char_def)
    next
      case 2
      then have s: "show_nat n = [digit_char (n div 10), digit_char n]"
        by (simp add: show_nat_step show_nat_small)
      have "m = ''0'' @ [digit_char (n div 10), digit_char n]" "n div 100 = 0"
        using 2 by (simp_all add: m_def s)
      then show ?thesis by (simp add: show_nat_small digit_char_def)
    next
      case 3
      then have "m = show_nat (n div 100) @ [digit_char (n div 10), digit_char n]"
        by (simp add: m_def show_nat_two length_show_nat)
      then show ?thesis by simp
    qed
  qed
  have "to_fixed2 nts (Fin x) = (if x < 0 then ''-'' else '''') @ take (length m - 2) m @ ''.'' @
      drop (length m - 2) m"
    using assms by (simp add: to_fixed2_def Let_def n_def m_def)
  then show ?thesis using split by (simp add: n_def)
qed

lemma is_digit_not_minus: "is_digit c \<Longrightarrow> c \<noteq> CHR ''-''"
  by (auto simp add: is_digit_def)

lemma unsigned_part_format:
  assumes "ip \<noteq> []" and "list_all is_digit ip"
  shows "unsigned_part ((if neg then ''-'' else '''') @ ip @ rest) = ip @ rest"
proof -
  obtain c cs where ip: "ip = c # cs" using assms(1) by (cases ip) auto
  then have "c \<noteq> CHR ''-''" using assms(2) by (simp add: is_digit_not_minus)
  then show ?thesis by (simp add: unsigned_part_def ip)
qed

lemma format_two_decimal:
  assumes "ip \<noteq> []" and "list_all is_digit ip" and "is_digit d1" and "is_digit d2"
  shows "two_decimal_percent ((if neg then ''-'' else '''') @ ip @ ''.'' @ [d1, d2] @ ''%'')"
    and "percent_value ((if neg then ''-'' else '''') @ ip @ ''.'' @ [d1, d2] @ ''%'') =
           real (decimal_value ip) + real (decimal_value [d1, d2]) / 100"
    and "take 1 ((if neg then ''-'' else '''') @ ip @ ''.'' @ [d1, d2] @ ''%'') = ''-'' \<longleftrightarrow> neg"
proof -
  let ?rest = "''.'' @ [d1, d2] @ ''%''"
  have u: "unsigned_part ((if neg then ''-'' else '''') @ ip @ ?rest) = ip @ ?rest"
    using assms(1,2) by (rule unsigned_part_format)
  have len: "length (ip @ ?rest) = length ip + 4" by simp
  have pos: "Suc 0 \<le> length ip" using assms(1) by (cases ip) simp_all
  show "two_decimal_percent ((if neg then ''-'' else '''') @ ip @ ?rest)"
    unfolding two_decimal_percent_def u Let_def len using assms pos by simp
  show "percent_value ((if neg then ''-'' else '''') @ ip @ ?rest) =
           real (decimal_value ip) + real (decimal_value [d1, d2]) / 100"
    unfolding percent_value_def u Let_def len by simp
  obtain c cs where ip: "ip = c # cs" using assms(1) by (cases ip) auto
  then have "c \<noteq> CHR ''-''" using assms(2) by (simp add: is_digit_not_minus)
  then show "take 1 ((if neg then ''-'' else '''') @ ip @ ?rest) = ''-'' \<longleftrightarrow> neg"
    by (simp add: ip)
qed

lemma two_digits_value: "decimal_value [digit_char (n div 10), digit_char n] = n mod 100"
proof -
  have "decimal_value [digit_char (n div 10), digit_char n] = 10 * (n div 10 mod 10) + n mod 10"
    by (rule decimal_value_two)
  also have "\<dots> = n mod 100" using mod_mult2_eq[of n 10 10] by simp
  finally show ?thesis .
qed

lemma rounding_bounds:
  fixes y :: real
  assumes "0 \<le> y"
  defines "n \<equiv> nat \<lfloor>y * 100 + 1 / 2\<rfloor>"
  shows "real n / 100 - 1 / 200 \<le> y" and "y < real n / 100 + 1 / 200"
proof -
  have nonneg: "0 \<le> \<lfloor>y * 100 + 1 / 2\<rfloor>" using assms(1) by simp
  then have r: "real n = of_int \<lfloor>y * 100 + 1 / 2\<rfloor>" by (simp add: n_def)
  have "of_int \<lfloor>y * 100 + 1 / 2\<rfloor> \<le> y * 100 + 1 / 2" by (rule of_int_floor_le)
  then show "real n / 100 - 1 / 200 \<le> y" using r by linarith
  have "y * 100 + 1 / 2 < of_int \<lfloor>y * 100 + 1 / 2\<rfloor> + 1" by linarith
  then show "y < real n / 100 + 1 / 200" using r by linarith
qed

lemma confidence_Fin:
  fixes nts :: "real \<Rightarrow> string" and m :: real
  assumes "\<bar>m * 100\<bar> < 10 ^ 21"
  defines "c \<equiv> to_fixed2 nts (times100 (Fin m)) @ ''%''"
  shows "two_decimal_percent c" and "take 1 c = ''-'' \<longleftrightarrow> m < 0"
    and "percent_value c - 1 / 200 \<le> \<bar>m * 100\<bar>" and "\<bar>m * 100\<bar> < percent_value c + 1 / 200"
proof -
  define n where "n = nat \<lfloor>\<bar>m * 100\<bar> * 100 + 1 / 2\<rfloor>"
  have c: "c = (if m * 100 < 0 then ''-'' else '''') @ show_nat (n div 100) @ ''.'' @
       [digit_char (n div 10), digit_char n] @ ''%''"
    unfolding c_def n_def using to_fixed2_Fin[OF assms(1), of nts] by simp
  note f = format_two_decimal[where neg = "m * 100 < 0", OF show_nat_not_Nil[of "n div 100"]
      show_nat_digits is_digit_digit_char[of "n div 10"] is_digit_digit_char[of n]]
  show "two_decimal_percent c" unfolding c by (rule f(1))
  have "take 1 c = ''-'' \<longleftrightarrow> m * 100 < 0" unfolding c by (rule f(3))
  then show "take 1 c = ''-'' \<longleftrightarrow> m < 0" by simp
  have "percent_value c = real (n div 100) + real (n mod 100) / 100"
    unfolding c f(2) by (simp add: decimal_value_show_nat two_digits_value)
  also have "\<dots> = real n / 100"
  proof -
    have "real n = real (100 * (n div 100) + n mod 100)" by simp
    also have "\<dots> = 100 * real (n div 100) + real (n mod 100)"
      by (simp only: of_nat_add of_nat_mult of_nat_numeral)
    finally have "real n = 100 * real (n div 100) + real (n mod 100)" .
    then show ?thesis by linarith
  qed
  finally have v: "percent_value c = real n / 100" .
  show "percent_value c - 1 / 200 \<le> \<bar>m * 100\<bar>" "\<bar>m * 100\<bar> < percent_value c + 1 / 200"
    unfolding v n_def using rounding_bounds[of "\<bar>m * 100\<bar>"] by simp_all
qed

section \<open>Evaluation on sample inputs\<close>

lemmas interpret_eval =
  interpret_scores_def interpret_scores_v0_def Math_max_def indexOf_def element_at_def
  num_gt_def strict_eq_def LABELS_at_def LABELS_def to_fixed2_Fin show_nat.simps digit_char_def

lemma one_pixel: "tensor_encode [10, 20, 30, 255] = [Fin 10, Fin 20, Fin 30] @ replicate 150525 (Fin 0)"
proof (rule nth_equalityI)
  show "length (tensor_encode [10, 20, 30, 255]) = length ([Fin 10, Fin 20, Fin 30] @ replicate 150525 (Fin 0))"
    by (simp add: length_tensor_encode)
next
  fix j assume "j < length (tensor_encode [10, 20, 30, 255])"
  then have j: "j < 150528" by (simp add: length_tensor_encode)
  consider "j = 0" | "j = 1" | "j = 2" | "3 \<le> j" by linarith
  then show "tensor_encode [10, 20, 30, 255] ! j = ([Fin 10, Fin 20, Fin 30] @ replicate 150525 (Fin 0)) ! j"
  proof cases
    case 4
    then have "j div 3 \<ge> 1" by simp
    then have "\<not> 4 * (j div 3) < 4" by simp
    then show ?thesis using 4 j by (simp add: nth_tensor_encode nth_append)
  qed (simp_all add: nth_tensor_encode read_u8_def)
qed

lemma take_one_tensor_encode:
  "take (Suc 0) (tensor_encode d) = [if 0 < length d then read_u8 d 0 else Fin 0]"
proof -
  have "tensor_encode d \<noteq> []" using length_tensor_encode[of d] by auto
  then have "take (Suc 0) (tensor_encode d) = [tensor_encode d ! 0]"
    by (cases "tensor_encode d") simp_all
  then show ?thesis by (simp add: nth_tensor_encode)
qed

lemma analyzeImage_ready:
  "u \<noteq> [] \<Longrightarrow> analyzeImage e (ready_state m u) =
     analyze_run e m u ((ready_state m u)\<lparr>loading := True\<rparr>)"
  by (simp add: analyzeImage_def not_ready_def ready_state_def)

lemma LABELS_at_nat: "LABELS_at (int i) = (if i < length LABELS then Some (LABELS ! i) else None)"
  by (simp add: LABELS_at_def)

lemma advice_nonempty: "map_of DISEASE_ADVICE l = Some a \<Longrightarrow> a \<noteq> []"
  by (auto simp add: DISEASE_ADVICE_def warning_sign_def check_mark_def question_mark_def
      split: if_splits)

lemma addToHistory_saved:
  assumes "getItem_rejects e = None" and "setItem_rejects e = None"
    and "parse_history (leaf_history st) = Inr old"
  shows "addToHistory e pd u st =
     Inr (st\<lparr>leaf_history := Some (HistoryJSON (take 20 (new_entry e pd u # old)))\<rparr>)"
proof -
  have "addToHistory_try e pd u st =
     Inr (st\<lparr>leaf_history := Some (HistoryJSON (take 20 (new_entry e pd u # old)))\<rparr>)"
    unfolding addToHistory_try_Inr using assms by simp
  then show ?thesis by (simp add: addToHistory_def)
qed

lemma handleImageResult_Picked:
  "prediction (handleImageResult (Picked u) st) = None"
  "selectedImage (handleImageResult (Picked u) st) = Some u"
  "handleImageResult Canceled st = st"
  by (simp_all add: handleImageResult_def)

lemma sample_analysis:
  "prediction (analyze_run (sample_env sample_decode None None) brightness_model ''dark.jpg'' st)
     = Some \<lparr>label = Some ''Bacterial Leaf Blight'', confidence = ''75.00%''\<rparr>"
  "prediction (analyze_run (sample_env sample_decode None None) brightness_model ''bright.jpg'' st)
     = Some \<lparr>label = Some ''Leaf Blast'', confidence = ''75.00%''\<rparr>"
  "selectedImage (analyze_run (sample_env sample_decode None None) brightness_model u st)
     = selectedImage st"
  "loading (analyze_run (sample_env sample_decode None None) brightness_model u st) = False"
proof -
  let ?e = "sample_env sample_decode None None"
  let ?dark = "[Fin (3 / 4), Fin (1 / 4), Fin 0, Fin 0, Fin 0, Fin 0, Fin 0]"
  let ?bright = "[Fin (1 / 4), Fin 0, Fin 0, Fin (3 / 4), Fin 0, Fin 0, Fin 0]"
  have d: "manipulateAsync ?e ''dark.jpg'' = Inr ''resized-dark.jpg''"
    "readAsStringAsync ?e ''resized-dark.jpg'' = Inr ''base64-of-resized-dark.jpg''"
    "jpeg_decode ?e ''base64-of-resized-dark.jpg'' = Inr (replicate 200704 0)"
    "brightness_model (tensor_encode (replicate 200704 0)) = Inr (?dark # [])"
    by (simp_all add: sample_env_def sample_decode_def brightness_model_def
        take_one_tensor_encode read_u8_def)
  have b: "manipulateAsync ?e ''bright.jpg'' = Inr ''resized-bright.jpg''"
    "readAsStringAsync ?e ''resized-bright.jpg'' = Inr ''base64-of-resized-bright.jpg''"
    "jpeg_decode ?e ''base64-of-resized-bright.jpg'' = Inr (replicate 200704 255)"
    "brightness_model (tensor_encode (replicate 200704 255)) = Inr (?bright # [])"
    by (simp_all add: sample_env_def sample_decode_def brightness_model_def
        take_one_tensor_encode read_u8_def)
  have i: "interpret_scores (Number_toString ?e) ?dark
      = \<lparr>label = Some ''Bacterial Leaf Blight'', confidence = ''75.00%''\<rparr>"
    "interpret_scores (Number_toString ?e) ?bright
      = \<lparr>label = Some ''Leaf Blast'', confidence = ''75.00%''\<rparr>"
    by (simp_all add: sample_env_def interpret_eval)
  show "prediction (analyze_run ?e brightness_model ''dark.jpg'' st)
     = Some \<lparr>label = Some ''Bacterial Leaf Blight'', confidence = ''75.00%''\<rparr>"
    using analyze_run_success(1)[where run = brightness_model, OF d] i by simp
  show "prediction (analyze_run ?e brightness_model ''bright.jpg'' st)
     = Some \<lparr>label = Some ''Leaf Blast'', confidence = ''75.00%''\<rparr>"
    using analyze_run_success(1)[where run = brightness_model, OF b] i by simp
  obtain x where x: "brightness_model (tensor_encode (replicate 200704
      (if ''base64-of-resized-'' @ u = ''base64-of-resized-dark.jpg'' then 0 else 255))) = Inr (x # [])"
    by (simp add: brightness_model_def)
  have g: "manipulateAsync ?e u = Inr (''resized-'' @ u)"
    "readAsStringAsync ?e (''resized-'' @ u) = Inr (''base64-of-'' @ ''resized-'' @ u)"
    "jpeg_decode ?e (''base64-of-'' @ ''resized-'' @ u) = Inr (replicate 200704
      (if ''base64-of-resized-'' @ u = ''base64-of-resized-dark.jpg'' then 0 else 255))"
    by (simp_all add: sample_env_def sample_decode_def)
  show "selectedImage (analyze_run ?e brightness_model u st) = selectedImage st"
    by (rule analyze_run_success(3)[where run = brightness_model, OF g x])
  show "loading (analyze_run ?e brightness_model u st) = False"
    by (rule analyze_run_success(4)[where run = brightness_model, OF g x])
qed

section \<open>Buffers of another length\<close>

text \<open>
  Claim C2 says that a pixel buffer whose length is not 224 x 224 x 4 makes the encoder fail.
  It does not: a buffer of one pixel (four bytes) is encoded, without any error, into a
  tensor of 150528 entries, the three colour bytes followed by zeros; the request goes on and
  surfaces a Diagnosis, and no failure dialog is shown.
\<close>

theorem encoder_wrong_length_counterexample:
  "length [10, 20, 30, 255 :: 8 word] \<noteq> 224 * 224 * 4 \<and>
   tensor_encode [10, 20, 30, 255] = [Fin 10, Fin 20, Fin 30] @ replicate 150525 (Fin 0) \<and>
   prediction (analyzeImage (sample_env one_pixel_decode None None)
       (ready_state (constant_model
          [Fin (1 / 8), Fin (1 / 8), Fin (1 / 2), Fin (1 / 8), Fin (1 / 8), Fin 0, Fin 0])
          ''leaf.jpg''))
     = Some \<lparr>label = Some ''Healthy Rice Leaf'', confidence = ''50.00%''\<rparr> \<and>
   alerts (analyzeImage (sample_env one_pixel_decode None None)
       (ready_state (constant_model
          [Fin (1 / 8), Fin (1 / 8), Fin (1 / 2), Fin (1 / 8), Fin (1 / 8), Fin 0, Fin 0])
          ''leaf.jpg'')) = []"
proof -
  let ?e = "sample_env one_pixel_decode None None"
  let ?v = "[Fin (1 / 8), Fin (1 / 8), Fin (1 / 2), Fin (1 / 8), Fin (1 / 8), Fin 0, Fin 0]"
  let ?st = "(ready_state (constant_model ?v) ''leaf.jpg'')\<lparr>loading := True\<rparr>"
  have s: "manipulateAsync ?e ''leaf.jpg'' = Inr ''resized-leaf.jpg''"
    "readAsStringAsync ?e ''resized-leaf.jpg'' = Inr ''base64-of-resized-leaf.jpg''"
    "jpeg_decode ?e ''base64-of-resized-leaf.jpg'' = Inr [10, 20, 30, 255]"
    "constant_model ?v (tensor_encode [10, 20, 30, 255]) = Inr (?v # [])"
    by (simp_all add: sample_env_def one_pixel_decode_def constant_model_def)
  have i: "interpret_scores (Number_toString ?e) ?v
      = \<lparr>label = Some ''Healthy Rice Leaf'', confidence = ''50.00%''\<rparr>"
    by (simp add: sample_env_def one_pixel_decode_def interpret_eval)
  have p: "prediction (analyze_run ?e (constant_model ?v) ''leaf.jpg'' ?st)
      = Some \<lparr>label = Some ''Healthy Rice Leaf'', confidence = ''50.00%''\<rparr>"
    using analyze_run_success(1)[where run = "constant_model ?v", OF s] i by simp
  have a: "alerts (analyze_run ?e (constant_model ?v) ''leaf.jpg'' ?st) = []"
    using analyze_run_success(2)[where run = "constant_model ?v" and st = ?st, OF s]
    by (simp add: ready_state_def initial_state_def)
  show ?thesis using one_pixel p a by (simp add: analyzeImage_ready)
qed

text \<open>
  Claim C2, as amended. For a pixel buffer of any length the encoder raises no error and
  returns a tensor of exactly 150528 entries. Entry \<open>j\<close> is byte \<open>j mod 3\<close> of pixel
  \<open>j div 3\<close> when that pixel starts inside the buffer (\<open>NaN\<close> when the byte itself lies
  past the end of the buffer), and zero otherwise: a short buffer is padded with zeros, and
  the bytes after the first 224 x 224 x 4 are ignored. Whenever the library calls of the
  request succeed, the request surfaces the interpreted result and shows no failure dialog,
  whatever the length of the buffer.
\<close>

theorem tensor_encode_any_length:
  "length (tensor_encode d) = 150528 \<and>
   (\<forall>j<150528. tensor_encode d ! j =
      (if 4 * (j div 3) < length d then read_u8 d (4 * (j div 3) + j mod 3) else Fin 0)) \<and>
   tensor_encode (take (224 * 224 * 4) d) = tensor_encode d \<and>
   (manipulateAsync e img = Inr m \<and> readAsStringAsync e m = Inr b \<and> jpeg_decode e b = Inr d \<and>
    run (tensor_encode d) = Inr (v # rest) \<longrightarrow>
      prediction (analyze_run e run img st) = Some (interpret_scores (Number_toString e) v) \<and>
      alerts (analyze_run e run img st) = alerts st)"
proof (intro conjI allI impI)
  show "length (tensor_encode d) = 150528" by (rule length_tensor_encode)
next
  fix j :: nat assume "j < 150528"
  then show "tensor_encode d ! j =
      (if 4 * (j div 3) < length d then read_u8 d (4 * (j div 3) + j mod 3) else Fin 0)"
    by (rule nth_tensor_encode)
next
  show "tensor_encode (take (224 * 224 * 4) d) = tensor_encode d"
    using tensor_encode_take[of d] by simp
next
  assume a: "manipulateAsync e img = Inr m \<and> readAsStringAsync e m = Inr b \<and>
    jpeg_decode e b = Inr d \<and> run (tensor_encode d) = Inr (v # rest)"
  then have s: "manipulateAsync e img = Inr m" "readAsStringAsync e m = Inr b"
    "jpeg_decode e b = Inr d" "run (tensor_encode d) = Inr (v # rest)" by simp_all
  show "prediction (analyze_run e run img st) = Some (interpret_scores (Number_toString e) v)"
    by (rule analyze_run_success(1)[where run = run, OF s])
  show "alerts (analyze_run e run img st) = alerts st"
    by (rule analyze_run_success(2)[where run = run, OF s])
qed

theorem tensor_encode_any_length_witness:
  "length (tensor_encode [10, 20, 30, 255]) = 150528 \<and>
   tensor_encode [10, 20, 30, 255] ! 1 = Fin 20 \<and>
   tensor_encode [10, 20, 30, 255] ! 3 = Fin 0 \<and>
   jpeg_decode (sample_env one_pixel_decode None None) ''base64-of-resized-leaf.jpg''
     = Inr [10, 20, 30, 255] \<and>
   prediction (analyze_run (sample_env one_pixel_decode None None)
      brightness_model ''leaf.jpg'' initial_state)
     = Some \<lparr>label = Some ''Leaf Blast'', confidence = ''75.00%''\<rparr>"
proof -
  let ?e = "sample_env one_pixel_decode None None"
  let ?v = "[Fin (1 / 4), Fin 0, Fin 0, Fin (3 / 4), Fin 0, Fin 0, Fin 0]"
  note T = tensor_encode_any_length[of "[10, 20, 30, 255]" ?e "''leaf.jpg''"
      "''resized-leaf.jpg''" "''base64-of-resized-leaf.jpg''" brightness_model ?v "[]"
      initial_state]
  have l: "length (tensor_encode [10, 20, 30, 255]) = 150528" using T by (rule conjunct1)
  note n = T[THEN conjunct2, THEN conjunct1]
  have n1: "tensor_encode [10, 20, 30, 255] ! 1 = Fin 20" using n by (simp add: read_u8_def)
  have n3: "tensor_encode [10, 20, 30, 255] ! 3 = Fin 0" using n by (simp add: read_u8_def)
  have s: "manipulateAsync ?e ''leaf.jpg'' = Inr ''resized-leaf.jpg'' \<and>
    readAsStringAsync ?e ''resized-leaf.jpg'' = Inr ''base64-of-resized-leaf.jpg'' \<and>
    jpeg_decode ?e ''base64-of-resized-leaf.jpg'' = Inr [10, 20, 30, 255] \<and>
    brightness_model (tensor_encode [10, 20, 30, 255]) = Inr (?v # [])"
    by (simp add: sample_env_def one_pixel_decode_def brightness_model_def take_one_tensor_encode read_u8_def)
  have i: "interpret_scores (Number_toString ?e) ?v
      = \<lparr>label = Some ''Leaf Blast'', confidence = ''75.00%''\<rparr>"
    by (simp add: sample_env_def one_pixel_decode_def interpret_eval)
  have p: "prediction (analyze_run ?e brightness_model ''leaf.jpg'' initial_state)
      = Some \<lparr>label = Some ''Leaf Blast'', confidence = ''75.00%''\<rparr>"
    using T[THEN conjunct2, THEN conjunct2, THEN conjunct2, rule_format, OF s] i by simp
  show ?thesis using l n1 n3 s p by simp
qed

section \<open>The result interpreter\<close>

text \<open>
  Claim C3 says that a score vector whose length is zero or differs from 7 makes the
  interpreter fail and that no label is returned. It does not fail: on a vector of five
  scores both versions of the interpreter return the label at the first index of the
  maximum, and the request surfaces it as the Diagnosis without a failure dialog.
\<close>

theorem interpreter_length_five_counterexample:
  "length [Fin (1 / 8), Fin (1 / 8), Fin (1 / 2), Fin (1 / 8), Fin (1 / 8)] \<noteq> length LABELS \<and>
   interpret_scores sample_toString [Fin (1 / 8), Fin (1 / 8), Fin (1 / 2), Fin (1 / 8), Fin (1 / 8)]
     = \<lparr>label = Some ''Healthy Rice Leaf'', confidence = ''50.00%''\<rparr> \<and>
   interpret_scores_v0 sample_toString [Fin (1 / 8), Fin (1 / 8), Fin (1 / 2), Fin (1 / 8), Fin (1 / 8)]
     = \<lparr>label = Some ''Healthy Rice Leaf'', confidence = ''50.00%''\<rparr> \<and>
   prediction (analyzeImage (sample_env sample_decode None None)
       (ready_state (constant_model
          [Fin (1 / 8), Fin (1 / 8), Fin (1 / 2), Fin (1 / 8), Fin (1 / 8)]) ''leaf.jpg''))
     = Some \<lparr>label = Some ''Healthy Rice Leaf'', confidence = ''50.00%''\<rparr> \<and>
   alerts (analyzeImage (sample_env sample_decode None None)
       (ready_state (constant_model
          [Fin (1 / 8), Fin (1 / 8), Fin (1 / 2), Fin (1 / 8), Fin (1 / 8)]) ''leaf.jpg'')) = []"
proof -
  let ?e = "sample_env sample_decode None None"
  let ?v = "[Fin (1 / 8), Fin (1 / 8), Fin (1 / 2), Fin (1 / 8), Fin (1 / 8)]"
  let ?st = "(ready_state (constant_model ?v) ''leaf.jpg'')\<lparr>loading := True\<rparr>"
  have s: "manipulateAsync ?e ''leaf.jpg'' = Inr ''resized-leaf.jpg''"
    "readAsStringAsync ?e ''resized-leaf.jpg'' = Inr ''base64-of-resized-leaf.jpg''"
    "jpeg_decode ?e ''base64-of-resized-leaf.jpg'' = Inr (replicate 200704 255)"
    "constant_model ?v (tensor_encode (replicate 200704 255)) = Inr (?v # [])"
    by (simp_all add: sample_env_def sample_decode_def constant_model_def)
  have i: "interpret_scores (Number_toString ?e) ?v
      = \<lparr>label = Some ''Healthy Rice Leaf'', confidence = ''50.00%''\<rparr>"
    by (simp add: sample_env_def interpret_eval)
  have i0: "interpret_scores_v0 sample_toString ?v
      = \<lparr>label = Some ''Healthy Rice Leaf'', confidence = ''50.00%''\<rparr>"
    by (simp add: interpret_eval)
  have p: "prediction (analyze_run ?e (constant_model ?v) ''leaf.jpg'' ?st)
      = Some \<lparr>label = Some ''Healthy Rice Leaf'', confidence = ''50.00%''\<rparr>"
    using analyze_run_success(1)[where run = "constant_model ?v", OF s] i by simp
  have a: "alerts (analyze_run ?e (constant_model ?v) ''leaf.jpg'' ?st) = []"
    using analyze_run_success(2)[where run = "constant_model ?v" and st = ?st, OF s]
    by (simp add: ready_state_def initial_state_def)
  have l: "length ?v \<noteq> length LABELS" by (simp add: LABELS_def)
  show ?thesis using l i i0 p a by (simp add: analyzeImage_ready sample_env_def)
qed

text \<open>
  Claim C3, as amended. The interpreter checks no length and raises no error. On the empty
  vector it returns the label \<open>undefined\<close> with the confidence \<open>"-Infinity%"\<close>
  (\<open>"NaN%"\<close> in the earlier version). On a non-empty vector without \<open>NaN\<close>, of any
  length, it selects the first index \<open>i\<close> of the maximum and returns \<open>LABELS[i]\<close>, which
  is a label when \<open>i < 7\<close> and \<open>undefined\<close> otherwise. Whenever the library calls of the
  request succeed, the request surfaces that result and shows no failure dialog, whatever
  the length of the vector.
\<close>

theorem interpreter_any_length:
  "interpret_scores nts [] = \<lparr>label = None, confidence = ''-Infinity%''\<rparr> \<and>
   interpret_scores_v0 nts [] = \<lparr>label = None, confidence = ''NaN%''\<rparr> \<and>
   (v \<noteq> [] \<and> NaN \<notin> set v \<longrightarrow>
      (\<exists>i<length v. indexOf v (Math_max v) = int i \<and>
         (\<forall>j<length v. num_le (v ! j) (v ! i)) \<and> (\<forall>j<i. num_lt (v ! j) (v ! i)) \<and>
         label (interpret_scores nts v) = (if i < length LABELS then Some (LABELS ! i) else None) \<and>
         label (interpret_scores_v0 nts v) = (if i < length LABELS then Some (LABELS ! i) else None))) \<and>
   (manipulateAsync e img = Inr m \<and> readAsStringAsync e m = Inr b \<and> jpeg_decode e b = Inr d \<and>
    run (tensor_encode d) = Inr (v # rest) \<longrightarrow>
      prediction (analyze_run e run img st) = Some (interpret_scores (Number_toString e) v) \<and>
      alerts (analyze_run e run img st) = alerts st)"
proof (intro conjI impI)
  show "interpret_scores nts [] = \<lparr>label = None, confidence = ''-Infinity%''\<rparr>"
    by (simp add: interpret_scores_def Math_max_def indexOf_def LABELS_at_def to_fixed2_def)
  show "interpret_scores_v0 nts [] = \<lparr>label = None, confidence = ''NaN%''\<rparr>"
    by (simp add: interpret_scores_v0_def Math_max_def indexOf_def LABELS_at_def to_fixed2_def
        element_at_def)
next
  assume a: "v \<noteq> [] \<and> NaN \<notin> set v"
  then obtain i where i: "i < length v" "indexOf v (Math_max v) = int i"
    "\<forall>j<length v. num_le (v ! j) (v ! i)" "\<forall>j<i. num_lt (v ! j) (v ! i)"
    using argmax_first[of v] by blast
  have "label (interpret_scores nts v) = (if i < length LABELS then Some (LABELS ! i) else None)"
    "label (interpret_scores_v0 nts v) = (if i < length LABELS then Some (LABELS ! i) else None)"
    by (simp_all add: interpret_scores_def interpret_scores_v0_def Let_def i(2) LABELS_at_nat)
  then show "\<exists>i<length v. indexOf v (Math_max v) = int i \<and>
         (\<forall>j<length v. num_le (v ! j) (v ! i)) \<and> (\<forall>j<i. num_lt (v ! j) (v ! i)) \<and>
         label (interpret_scores nts v) = (if i < length LABELS then Some (LABELS ! i) else None) \<and>
         label (interpret_scores_v0 nts v) = (if i < length LABELS then Some (LABELS ! i) else None)"
    using i by blast
next
  assume a: "manipulateAsync e img = Inr m \<and> readAsStringAsync e m = Inr b \<and>
    jpeg_decode e b = Inr d \<and> run (tensor_encode d) = Inr (v # rest)"
  then have s: "manipulateAsync e img = Inr m" "readAsStringAsync e m = Inr b"
    "jpeg_decode e b = Inr d" "run (tensor_encode d) = Inr (v # rest)" by simp_all
  show "prediction (analyze_run e run img st) = Some (interpret_scores (Number_toString e) v)"
    by (rule analyze_run_success(1)[where run = run, OF s])
  show "alerts (analyze_run e run img st) = alerts st"
    by (rule analyze_run_success(2)[where run = run, OF s])
qed

theorem interpreter_any_length_witness:
  "[Fin (1 / 8), Fin (1 / 2), Fin (1 / 2)] \<noteq> [] \<and> NaN \<notin> set [Fin (1 / 8), Fin (1 / 2), Fin (1 / 2)] \<and>
   indexOf [Fin (1 / 8), Fin (1 / 2), Fin (1 / 2)] (Math_max [Fin (1 / 8), Fin (1 / 2), Fin (1 / 2)]) = 1 \<and>
   label (interpret_scores sample_toString [Fin (1 / 8), Fin (1 / 2), Fin (1 / 2)]) = Some ''Brown Spot'' \<and>
   constant_model [Fin (1 / 8), Fin (1 / 2), Fin (1 / 2)] (tensor_encode (replicate 200704 255))
     = Inr [[Fin (1 / 8), Fin (1 / 2), Fin (1 / 2)]] \<and>
   prediction (analyze_run (sample_env sample_decode None None)
      (constant_model [Fin (1 / 8), Fin (1 / 2), Fin (1 / 2)]) ''leaf.jpg'' initial_state)
     = Some \<lparr>label = Some ''Brown Spot'', confidence = ''50.00%''\<rparr>"
proof -
  let ?e = "sample_env sample_decode None None"
  let ?v = "[Fin (1 / 8), Fin (1 / 2), Fin (1 / 2)]"
  note T = interpreter_any_length[of sample_toString ?v ?e "''leaf.jpg''"
      "''resized-leaf.jpg''" "''base64-of-resized-leaf.jpg''" "replicate 200704 255"
      "constant_model ?v" "[]" initial_state]
  have h: "?v \<noteq> [] \<and> NaN \<notin> set ?v" by simp
  obtain i where i: "i < length ?v" "indexOf ?v (Math_max ?v) = int i"
    "label (interpret_scores sample_toString ?v) = (if i < length LABELS then Some (LABELS ! i) else None)"
    using T[THEN conjunct2, THEN conjunct2, THEN conjunct1, rule_format, OF h] by blast
  have ix: "indexOf ?v (Math_max ?v) = 1"
    by (simp add: Math_max_def indexOf_def num_gt_def strict_eq_def)
  then have "i = 1" using i(2) by simp
  then have lb: "label (interpret_scores sample_toString ?v) = Some ''Brown Spot''"
    using i(3) by (simp add: LABELS_def)
  have s: "manipulateAsync ?e ''leaf.jpg'' = Inr ''resized-leaf.jpg'' \<and>
    readAsStringAsync ?e ''resized-leaf.jpg'' = Inr ''base64-of-resized-leaf.jpg'' \<and>
    jpeg_decode ?e ''base64-of-resized-leaf.jpg'' = Inr (replicate 200704 255) \<and>
    constant_model ?v (tensor_encode (replicate 200704 255)) = Inr (?v # [])"
    by (simp add: sample_env_def sample_decode_def constant_model_def)
  have c: "interpret_scores (Number_toString ?e) ?v
      = \<lparr>label = Some ''Brown Spot'', confidence = ''50.00%''\<rparr>"
    by (simp add: sample_env_def interpret_eval)
  have p: "prediction (analyze_run ?e (constant_model ?v) ''leaf.jpg'' initial_state)
      = Some \<lparr>label = Some ''Brown Spot'', confidence = ''50.00%''\<rparr>"
    using T[THEN conjunct2, THEN conjunct2, THEN conjunct2, rule_format, OF s] c by simp
  show ?thesis using h ix lb s p by simp
qed

text \<open>
  Claim C4 says that for every non-empty score vector of length 7 the label at the index
  of the maximum is returned. It fails on a vector that contains \<open>NaN\<close>: \<open>Math.max\<close>
  is then \<open>NaN\<close>, \<open>indexOf\<close> finds nothing (\<open>NaN\<close> is not equal to itself), the index is
  \<open>-1\<close> and the label is \<open>undefined\<close>.
\<close>

theorem argmax_NaN_counterexample:
  "length [NaN, Fin 0, Fin 0, Fin 0, Fin 0, Fin 0, Fin 0] = length LABELS \<and>
   [NaN, Fin 0, Fin 0, Fin 0, Fin 0, Fin 0, Fin 0] \<noteq> [] \<and>
   interpret_scores sample_toString [NaN, Fin 0, Fin 0, Fin 0, Fin 0, Fin 0, Fin 0]
     = \<lparr>label = None, confidence = ''NaN%''\<rparr> \<and>
   interpret_scores_v0 sample_toString [NaN, Fin 0, Fin 0, Fin 0, Fin 0, Fin 0, Fin 0]
     = \<lparr>label = None, confidence = ''NaN%''\<rparr>"
  by (simp add: interpret_scores_def interpret_scores_v0_def Math_max_def indexOf_def
      element_at_def strict_eq_def LABELS_at_def LABELS_def to_fixed2_def)

text \<open>
  Claim C4, as amended. For every score vector of length 7 that contains no \<open>NaN\<close>, both
  versions of the interpreter select an index \<open>i < 7\<close> whose score is at least every score
  of the vector and strictly greater than every score before it (the first occurrence of
  the maximum), and return the label \<open>LABELS[i]\<close>. In particular the vector
  \<open>[0.5, 0.5, 0, 0, 0, 0, 0]\<close> yields index 0.
\<close>

theorem interpreter_argmax:
  "(length v = length LABELS \<and> NaN \<notin> set v \<longrightarrow>
      (\<exists>i<length LABELS. indexOf v (Math_max v) = int i \<and>
         (\<forall>j<length LABELS. num_le (v ! j) (v ! i)) \<and> (\<forall>j<i. num_lt (v ! j) (v ! i)) \<and>
         label (interpret_scores nts v) = Some (LABELS ! i) \<and>
         label (interpret_scores_v0 nts v) = Some (LABELS ! i))) \<and>
   indexOf [Fin (1 / 2), Fin (1 / 2), Fin 0, Fin 0, Fin 0, Fin 0, Fin 0]
     (Math_max [Fin (1 / 2), Fin (1 / 2), Fin 0, Fin 0, Fin 0, Fin 0, Fin 0]) = 0 \<and>
   label (interpret_scores nts [Fin (1 / 2), Fin (1 / 2), Fin 0, Fin 0, Fin 0, Fin 0, Fin 0])
     = Some ''Bacterial Leaf Blight''"
proof (intro conjI impI)
  assume a: "length v = length LABELS \<and> NaN \<notin> set v"
  then have ne: "v \<noteq> []" by (auto simp add: LABELS_def)
  obtain i where i: "i < length v" "indexOf v (Math_max v) = int i"
    "\<forall>j<length v. num_le (v ! j) (v ! i)" "\<forall>j<i. num_lt (v ! j) (v ! i)"
    using argmax_first[of v] a ne by blast
  have il: "i < length LABELS" using i(1) a by simp
  have "label (interpret_scores nts v) = Some (LABELS ! i)"
    "label (interpret_scores_v0 nts v) = Some (LABELS ! i)"
    using il by (simp_all add: interpret_scores_def interpret_scores_v0_def Let_def i(2) LABELS_at_nat)
  then show "\<exists>i<length LABELS. indexOf v (Math_max v) = int i \<and>
         (\<forall>j<length LABELS. num_le (v ! j) (v ! i)) \<and> (\<forall>j<i. num_lt (v ! j) (v ! i)) \<and>
         label (interpret_scores nts v) = Some (LABELS ! i) \<and>
         label (interpret_scores_v0 nts v) = Some (LABELS ! i)"
    using i il a by auto
next
  show "indexOf [Fin (1 / 2), Fin (1 / 2), Fin 0, Fin 0, Fin 0, Fin 0, Fin 0]
     (Math_max [Fin (1 / 2), Fin (1 / 2), Fin 0, Fin 0, Fin 0, Fin 0, Fin 0]) = 0"
    by (simp add: Math_max_def indexOf_def num_gt_def strict_eq_def)
  show "label (interpret_scores nts [Fin (1 / 2), Fin (1 / 2), Fin 0, Fin 0, Fin 0, Fin 0, Fin 0])
     = Some ''Bacterial Leaf Blight''"
    by (simp add: interpret_scores_def Math_max_def indexOf_def num_gt_def strict_eq_def
        LABELS_at_def LABELS_def)
qed

theorem interpreter_argmax_witness:
  "length [Fin (1 / 4), Fin 0, Fin (1 / 2), Fin 0, Fin (1 / 2), Fin 0, Fin (- 1)] = length LABELS \<and>
   NaN \<notin> set [Fin (1 / 4), Fin 0, Fin (1 / 2), Fin 0, Fin (1 / 2), Fin 0, Fin (- 1)] \<and>
   (\<exists>i<length LABELS.
      indexOf [Fin (1 / 4), Fin 0, Fin (1 / 2), Fin 0, Fin (1 / 2), Fin 0, Fin (- 1)]
        (Math_max [Fin (1 / 4), Fin 0, Fin (1 / 2), Fin 0, Fin (1 / 2), Fin 0, Fin (- 1)]) = int i \<and>
      label (interpret_scores sample_toString
        [Fin (1 / 4), Fin 0, Fin (1 / 2), Fin 0, Fin (1 / 2), Fin 0, Fin (- 1)]) = Some (LABELS ! i))"
proof -
  let ?v = "[Fin (1 / 4), Fin 0, Fin (1 / 2), Fin 0, Fin (1 / 2), Fin 0, Fin (- 1)]"
  have h: "length ?v = length LABELS \<and> NaN \<notin> set ?v" by (simp add: LABELS_def)
  note T = interpreter_argmax[of ?v sample_toString, THEN conjunct1, rule_format, OF h]
  then obtain i where "i < length LABELS" "indexOf ?v (Math_max ?v) = int i"
    "label (interpret_scores sample_toString ?v) = Some (LABELS ! i)"
    by blast
  then have "\<exists>i<length LABELS. indexOf ?v (Math_max ?v) = int i \<and>
      label (interpret_scores sample_toString ?v) = Some (LABELS ! i)"
    by blast
  then show ?thesis using h by blast
qed

text \<open>
  Claim C5 says that for every maximum score the confidence is a percentage with exactly
  two decimal places. It fails when the maximum is infinite: the confidence is then the
  text \<open>"Infinity%"\<close>, which has no decimal places.
\<close>

theorem confidence_infinite_counterexample:
  "Math_max [PosInf, Fin 0, Fin 0, Fin 0, Fin 0, Fin 0, Fin 0] = PosInf \<and>
   confidence (interpret_scores sample_toString [PosInf, Fin 0, Fin 0, Fin 0, Fin 0, Fin 0, Fin 0])
     = ''Infinity%'' \<and>
   confidence (interpret_scores_v0 sample_toString [PosInf, Fin 0, Fin 0, Fin 0, Fin 0, Fin 0, Fin 0])
     = ''Infinity%'' \<and>
   \<not> two_decimal_percent ''Infinity%''"
  by (simp add: interpret_scores_def interpret_scores_v0_def Math_max_def indexOf_def
      element_at_def num_gt_def strict_eq_def to_fixed2_def two_decimal_percent_def
      unsigned_part_def is_digit_def)

text \<open>
  Claim C5, as amended. For every score vector whose maximum \<open>m\<close> is a finite number
  with \<open>|m x 100| < 10^21\<close>, the confidence of both versions of the interpreter is a
  text of the form: optional minus sign (present exactly when \<open>m < 0\<close>), digits, a point,
  exactly two digits, \<open>%\<close>; and the number it denotes is \<open>|m x 100|\<close> rounded to the nearest
  hundredth, a tie going to the larger magnitude. In particular the vector
  \<open>[0.1, 0.05, 0.6, 0.1, 0.05, 0.05, 0.05]\<close> yields the label at index 2 and the
  confidence \<open>"60.00%"\<close>, also when each score is first rounded to the nearest 32-bit
  float.
\<close>

theorem confidence_two_decimals:
  "(Math_max v = Fin m \<and> \<bar>m * 100\<bar> < 10 ^ 21 \<longrightarrow>
      two_decimal_percent (confidence (interpret_scores nts v)) \<and>
      (take 1 (confidence (interpret_scores nts v)) = ''-'' \<longleftrightarrow> m < 0) \<and>
      percent_value (confidence (interpret_scores nts v)) - 1 / 200 \<le> \<bar>m * 100\<bar> \<and>
      \<bar>m * 100\<bar> < percent_value (confidence (interpret_scores nts v)) + 1 / 200 \<and>
      confidence (interpret_scores_v0 nts v) = confidence (interpret_scores nts v)) \<and>
   interpret_scores nts
     [Fin (1 / 10), Fin (5 / 100), Fin (6 / 10), Fin (1 / 10), Fin (5 / 100), Fin (5 / 100), Fin (5 / 100)]
     = \<lparr>label = Some ''Healthy Rice Leaf'', confidence = ''60.00%''\<rparr> \<and>
   interpret_scores nts
     [Fin (13421773 / 2 ^ 27), Fin (13421773 / 2 ^ 28), Fin (10066330 / 2 ^ 24),
      Fin (13421773 / 2 ^ 27), Fin (13421773 / 2 ^ 28), Fin (13421773 / 2 ^ 28),
      Fin (13421773 / 2 ^ 28)]
     = \<lparr>label = Some ''Healthy Rice Leaf'', confidence = ''60.00%''\<rparr>"
proof (intro conjI impI)
  assume a: "Math_max v = Fin m \<and> \<bar>m * 100\<bar> < 10 ^ 21"
  then have mx: "Math_max v = Fin m" and b: "\<bar>m * 100\<bar> < 10 ^ 21" by simp_all
  have c: "confidence (interpret_scores nts v) = to_fixed2 nts (times100 (Fin m)) @ ''%''"
    by (simp add: interpret_scores_def Let_def mx)
  show "two_decimal_percent (confidence (interpret_scores nts v))"
    unfolding c by (rule confidence_Fin(1)[OF b])
  show "take 1 (confidence (interpret_scores nts v)) = ''-'' \<longleftrightarrow> m < 0"
    unfolding c by (rule confidence_Fin(2)[OF b])
  show "percent_value (confidence (interpret_scores nts v)) - 1 / 200 \<le> \<bar>m * 100\<bar>"
    unfolding c by (rule confidence_Fin(3)[OF b])
  show "\<bar>m * 100\<bar> < percent_value (confidence (interpret_scores nts v)) + 1 / 200"
    unfolding c by (rule confidence_Fin(4)[OF b])
  obtain i where i: "i < length v" "indexOf v (Math_max v) = int i" "v ! i = Math_max v"
    using argmax_first[OF Math_max_Fin[OF mx]] by blast
  have "element_at v (indexOf v (Math_max v)) = Fin m"
    using i mx by (simp add: element_at_def)
  then show "confidence (interpret_scores_v0 nts v) = confidence (interpret_scores nts v)"
    unfolding c by (simp add: interpret_scores_v0_def Let_def)
next
  show "interpret_scores nts
     [Fin (1 / 10), Fin (5 / 100), Fin (6 / 10), Fin (1 / 10), Fin (5 / 100), Fin (5 / 100), Fin (5 / 100)]
     = \<lparr>label = Some ''Healthy Rice Leaf'', confidence = ''60.00%''\<rparr>"
    by (simp add: interpret_eval)
  show "interpret_scores nts
     [Fin (13421773 / 2 ^ 27), Fin (13421773 / 2 ^ 28), Fin (10066330 / 2 ^ 24),
      Fin (13421773 / 2 ^ 27), Fin (13421773 / 2 ^ 28), Fin (13421773 / 2 ^ 28),
      Fin (13421773 / 2 ^ 28)]
     = \<lparr>label = Some ''Healthy Rice Leaf'', confidence = ''60.00%''\<rparr>"
    by (simp add: interpret_eval)
qed

theorem confidence_two_decimals_witness:
  "Math_max [Fin (1 / 8), Fin (5 / 8), Fin (1 / 4)] = Fin (5 / 8) \<and>
   \<bar>(5 / 8 :: real) * 100\<bar> < 10 ^ 21 \<and>
   two_decimal_percent (confidence (interpret_scores sample_toString [Fin (1 / 8), Fin (5 / 8), Fin (1 / 4)])) \<and>
   confidence (interpret_scores sample_toString [Fin (1 / 8), Fin (5 / 8), Fin (1 / 4)]) = ''62.50%''"
proof -
  let ?v = "[Fin (1 / 8), Fin (5 / 8), Fin (1 / 4)]"
  have h: "Math_max ?v = Fin (5 / 8) \<and> \<bar>(5 / 8 :: real) * 100\<bar> < 10 ^ 21"
    by (simp add: Math_max_def num_gt_def)
  have t: "two_decimal_percent (confidence (interpret_scores sample_toString ?v))"
    using confidence_two_decimals[of ?v "5 / 8" sample_toString] h by blast
  have "confidence (interpret_scores sample_toString ?v) = ''62.50%''"
    by (simp add: interpret_eval)
  then show ?thesis using h t by simp
qed

section \<open>Failures of a request\<close>

lemma interpret_scores_empty:
  "interpret_scores nts [] = \<lparr>label = None, confidence = ''-Infinity%''\<rparr>"
  by (simp add: interpret_scores_def Math_max_def indexOf_def LABELS_at_def to_fixed2_def)

text \<open>
  Claim C6 says that every failure arising in the pipeline, those of encoding and
  interpreting included, ends in one failure dialog with the prediction unchanged. Two of
  the failures the claim names raise nothing in the code. When the classifier returns an
  empty score vector, the request replaces the previous Diagnosis by one with the label
  \<open>undefined\<close> and the confidence \<open>"-Infinity%"\<close>, and shows no dialog. When the decoder
  returns a buffer of one pixel instead of 224 x 224, the request replaces the previous
  Diagnosis by the result for the zero-padded tensor, and shows no dialog.
\<close>

theorem silent_failure_counterexample:
  "constant_model [] (tensor_encode (replicate 200704 255)) = Inr [[]] \<and>
   prediction (analyzeImage (sample_env sample_decode None None)
       ((ready_state (constant_model []) ''leaf.jpg'')
          \<lparr>prediction := Some \<lparr>label = Some ''Brown Spot'', confidence = ''75.00%''\<rparr>\<rparr>))
     = Some \<lparr>label = None, confidence = ''-Infinity%''\<rparr> \<and>
   alerts (analyzeImage (sample_env sample_decode None None)
       ((ready_state (constant_model []) ''leaf.jpg'')
          \<lparr>prediction := Some \<lparr>label = Some ''Brown Spot'', confidence = ''75.00%''\<rparr>\<rparr>)) = [] \<and>
   jpeg_decode (sample_env one_pixel_decode None None) ''base64-of-resized-leaf.jpg''
     = Inr [10, 20, 30, 255] \<and>
   prediction (analyzeImage (sample_env one_pixel_decode None None)
       ((ready_state brightness_model ''leaf.jpg'')
          \<lparr>prediction := Some \<lparr>label = Some ''Brown Spot'', confidence = ''75.00%''\<rparr>\<rparr>))
     = Some \<lparr>label = Some ''Leaf Blast'', confidence = ''75.00%''\<rparr> \<and>
   alerts (analyzeImage (sample_env one_pixel_decode None None)
       ((ready_state brightness_model ''leaf.jpg'')
          \<lparr>prediction := Some \<lparr>label = Some ''Brown Spot'', confidence = ''75.00%''\<rparr>\<rparr>)) = []"
proof -
  let ?old = "Some \<lparr>label = Some ''Brown Spot'', confidence = ''75.00%''\<rparr>"
  let ?e = "sample_env sample_decode None None"
  let ?st = "(ready_state (constant_model []) ''leaf.jpg'')\<lparr>prediction := ?old\<rparr>"
  let ?e1 = "sample_env one_pixel_decode None None"
  let ?st1 = "(ready_state brightness_model ''leaf.jpg'')\<lparr>prediction := ?old\<rparr>"
  let ?v = "[Fin (1 / 4), Fin 0, Fin 0, Fin (3 / 4), Fin 0, Fin 0, Fin 0]"
  have r: "analyzeImage ?e ?st = analyze_run ?e (constant_model []) ''leaf.jpg'' (?st\<lparr>loading := True\<rparr>)"
    "analyzeImage ?e1 ?st1 = analyze_run ?e1 brightness_model ''leaf.jpg'' (?st1\<lparr>loading := True\<rparr>)"
    by (simp_all add: analyzeImage_def not_ready_def ready_state_def)
  have s: "manipulateAsync ?e ''leaf.jpg'' = Inr ''resized-leaf.jpg''"
    "readAsStringAsync ?e ''resized-leaf.jpg'' = Inr ''base64-of-resized-leaf.jpg''"
    "jpeg_decode ?e ''base64-of-resized-leaf.jpg'' = Inr (replicate 200704 255)"
    "constant_model [] (tensor_encode (replicate 200704 255)) = Inr ([] # [])"
    by (simp_all add: sample_env_def sample_decode_def constant_model_def)
  have s1: "manipulateAsync ?e1 ''leaf.jpg'' = Inr ''resized-leaf.jpg''"
    "readAsStringAsync ?e1 ''resized-leaf.jpg'' = Inr ''base64-of-resized-leaf.jpg''"
    "jpeg_decode ?e1 ''base64-of-resized-leaf.jpg'' = Inr [10, 20, 30, 255]"
    "brightness_model (tensor_encode [10, 20, 30, 255]) = Inr (?v # [])"
    by (simp_all add: sample_env_def one_pixel_decode_def brightness_model_def
        take_one_tensor_encode read_u8_def)
  have i1: "interpret_scores (Number_toString ?e1) ?v
      = \<lparr>label = Some ''Leaf Blast'', confidence = ''75.00%''\<rparr>"
    by (simp add: sample_env_def interpret_eval)
  have al: "alerts (?st\<lparr>loading := True\<rparr>) = []" "alerts (?st1\<lparr>loading := True\<rparr>) = []"
    by (simp_all add: ready_state_def initial_state_def)
  have p: "prediction (analyzeImage ?e ?st) = Some \<lparr>label = None, confidence = ''-Infinity%''\<rparr>"
    unfolding r using analyze_run_success(1)[where run = "constant_model []", OF s]
    by (simp add: interpret_scores_empty)
  have a: "alerts (analyzeImage ?e ?st) = []"
    unfolding r using analyze_run_success(2)[where run = "constant_model []", OF s] al by simp
  have p1: "prediction (analyzeImage ?e1 ?st1)
      = Some \<lparr>label = Some ''Leaf Blast'', confidence = ''75.00%''\<rparr>"
    unfolding r using analyze_run_success(1)[where run = brightness_model, OF s1] i1 by simp
  have a1: "alerts (analyzeImage ?e1 ?st1) = []"
    unfolding r using analyze_run_success(2)[where run = brightness_model, OF s1] al by simp
  show ?thesis using s(4) s1(3) p a p1 a1 by simp
qed

text \<open>
  Claim C6, as amended. When the \<open>try\<close> block of \<open>analyzeImage\<close> throws, at whatever
  point, the request ends with the prediction it started with, exactly one more dialog,
  "Could not analyze image.", \<open>loading\<close> reset, and the selected image and the stored
  history unchanged; the same holds for \<open>analyzeImage\<close> as a whole once its guard has
  passed. The block throws whenever resizing, reading, decoding or the classifier throws,
  or the classifier returns no output. A condition that raises nothing is not caught: for
  a pixel buffer of any length, when the classifier returns an empty score vector the
  request shows no dialog and surfaces the label \<open>undefined\<close> with the confidence
  \<open>"-Infinity%"\<close>.
\<close>

theorem thrown_failure_caught:
  "(analyze_try e run img st = Inl (x, s) \<longrightarrow>
      prediction (analyze_run e run img st) = prediction st \<and>
      alerts (analyze_run e run img st) = alerts st @ [(''Error'', ''Could not analyze image.'')] \<and>
      loading (analyze_run e run img st) = False \<and>
      selectedImage (analyze_run e run img st) = selectedImage st \<and>
      leaf_history (analyze_run e run img st) = leaf_history st) \<and>
   (\<not> not_ready st \<and>
    analyze_try e (the (model st)) (the (selectedImage st)) (st\<lparr>loading := True\<rparr>) = Inl (x, s) \<longrightarrow>
      prediction (analyzeImage e st) = prediction st \<and>
      alerts (analyzeImage e st) = alerts st @ [(''Error'', ''Could not analyze image.'')] \<and>
      loading (analyzeImage e st) = False) \<and>
   ((case manipulateAsync e img of Inl x \<Rightarrow> True | Inr m \<Rightarrow>
      case readAsStringAsync e m of Inl x \<Rightarrow> True | Inr b \<Rightarrow>
      case jpeg_decode e b of Inl x \<Rightarrow> True | Inr d \<Rightarrow>
      case run (tensor_encode d) of Inl x \<Rightarrow> True | Inr outputs \<Rightarrow> outputs = []) \<longrightarrow>
      isl (analyze_try e run img st)) \<and>
   (manipulateAsync e img = Inr m \<and> readAsStringAsync e m = Inr b \<and> jpeg_decode e b = Inr d \<and>
    run (tensor_encode d) = Inr ([] # rest) \<longrightarrow>
      prediction (analyze_run e run img st) = Some \<lparr>label = None, confidence = ''-Infinity%''\<rparr> \<and>
      alerts (analyze_run e run img st) = alerts st)"
proof (intro conjI impI)
  assume a: "analyze_try e run img st = Inl (x, s)"
  obtain msg where x: "x = Exn msg" by (cases x)
  note r = analyze_run_failure[OF a[unfolded x]]
  show "prediction (analyze_run e run img st) = prediction st"
    "alerts (analyze_run e run img st) = alerts st @ [(''Error'', ''Could not analyze image.'')]"
    "loading (analyze_run e run img st) = False"
    "selectedImage (analyze_run e run img st) = selectedImage st"
    "leaf_history (analyze_run e run img st) = leaf_history st"
    unfolding r by simp_all
next
  assume a: "\<not> not_ready st \<and>
    analyze_try e (the (model st)) (the (selectedImage st)) (st\<lparr>loading := True\<rparr>) = Inl (x, s)"
  obtain msg where x: "x = Exn msg" by (cases x)
  have r: "analyzeImage e st =
      analyze_run e (the (model st)) (the (selectedImage st)) (st\<lparr>loading := True\<rparr>)"
    using a by (simp add: analyzeImage_def)
  note f = analyze_run_failure[OF a[THEN conjunct2, unfolded x]]
  show "prediction (analyzeImage e st) = prediction st"
    "alerts (analyzeImage e st) = alerts st @ [(''Error'', ''Could not analyze image.'')]"
    "loading (analyzeImage e st) = False"
    unfolding r f by simp_all
next
  assume "case manipulateAsync e img of Inl x \<Rightarrow> True | Inr m \<Rightarrow>
      case readAsStringAsync e m of Inl x \<Rightarrow> True | Inr b \<Rightarrow>
      case jpeg_decode e b of Inl x \<Rightarrow> True | Inr d \<Rightarrow>
      case run (tensor_encode d) of Inl x \<Rightarrow> True | Inr outputs \<Rightarrow> outputs = []"
  then show "isl (analyze_try e run img st)" by (simp only: analyze_try_throws_iff)
next
  assume a: "manipulateAsync e img = Inr m \<and> readAsStringAsync e m = Inr b \<and>
    jpeg_decode e b = Inr d \<and> run (tensor_encode d) = Inr ([] # rest)"
  then have s: "manipulateAsync e img = Inr m" "readAsStringAsync e m = Inr b"
    "jpeg_decode e b = Inr d" "run (tensor_encode d) = Inr ([] # rest)" by simp_all
  show "prediction (analyze_run e run img st) = Some \<lparr>label = None, confidence = ''-Infinity%''\<rparr>"
    using analyze_run_success(1)[where run = run, OF s] by (simp add: interpret_scores_empty)
  show "alerts (analyze_run e run img st) = alerts st"
    by (rule analyze_run_success(2)[where run = run, OF s])
qed

theorem thrown_failure_caught_witness:
  "\<not> not_ready ((ready_state (constant_model []) ''leaf.jpg'')
       \<lparr>prediction := Some \<lparr>label = Some ''Brown Spot'', confidence = ''75.00%''\<rparr>\<rparr>) \<and>
   jpeg_decode (sample_env failing_decode None None) ''base64-of-resized-leaf.jpg''
     = Inl (Exn ''SOI not found'') \<and>
   isl (analyze_try (sample_env failing_decode None None) (constant_model []) ''leaf.jpg''
       ((ready_state (constant_model []) ''leaf.jpg'')
          \<lparr>prediction := Some \<lparr>label = Some ''Brown Spot'', confidence = ''75.00%''\<rparr>,
           loading := True\<rparr>)) \<and>
   prediction (analyzeImage (sample_env failing_decode None None)
       ((ready_state (constant_model []) ''leaf.jpg'')
          \<lparr>prediction := Some \<lparr>label = Some ''Brown Spot'', confidence = ''75.00%''\<rparr>\<rparr>))
     = Some \<lparr>label = Some ''Brown Spot'', confidence = ''75.00%''\<rparr> \<and>
   alerts (analyzeImage (sample_env failing_decode None None)
       ((ready_state (constant_model []) ''leaf.jpg'')
          \<lparr>prediction := Some \<lparr>label = Some ''Brown Spot'', confidence = ''75.00%''\<rparr>\<rparr>))
     = [(''Error'', ''Could not analyze image.'')] \<and>
   constant_model [] (tensor_encode (replicate 200704 255)) = Inr [[]] \<and>
   prediction (analyze_run (sample_env sample_decode None None) (constant_model []) ''leaf.jpg''
       initial_state)
     = Some \<lparr>label = None, confidence = ''-Infinity%''\<rparr> \<and>
   alerts (analyze_run (sample_env sample_decode None None) (constant_model []) ''leaf.jpg''
       initial_state) = []"
proof -
  let ?e = "sample_env failing_decode None None"
  let ?st = "(ready_state (constant_model []) ''leaf.jpg'')
       \<lparr>prediction := Some \<lparr>label = Some ''Brown Spot'', confidence = ''75.00%''\<rparr>\<rparr>"
  let ?e2 = "sample_env sample_decode None None"
  have g: "\<not> not_ready ?st" by (simp add: not_ready_def ready_state_def)
  have m: "the (model ?st) = constant_model []" "the (selectedImage ?st) = ''leaf.jpg''"
    by (simp_all add: ready_state_def)
  have t: "analyze_try ?e (the (model ?st)) (the (selectedImage ?st)) (?st\<lparr>loading := True\<rparr>)
      = Inl (Exn ''SOI not found'', ?st\<lparr>loading := True\<rparr>)"
    unfolding m by (simp add: analyze_try_def sample_env_def failing_decode_def)
  note A = thrown_failure_caught[where e = ?e and run = "constant_model []" and img = "''leaf.jpg''"
      and st = "?st\<lparr>loading := True\<rparr>"]
  note T = thrown_failure_caught[where e = ?e and st = ?st and x = "Exn ''SOI not found''"
      and s = "?st\<lparr>loading := True\<rparr>", THEN conjunct2, THEN conjunct1,
      rule_format, OF conjI[OF g t]]
  have d: "jpeg_decode ?e ''base64-of-resized-leaf.jpg'' = Inl (Exn ''SOI not found'')"
    by (simp add: sample_env_def failing_decode_def)
  have c: "case manipulateAsync ?e ''leaf.jpg'' of Inl x \<Rightarrow> True | Inr m \<Rightarrow>
      case readAsStringAsync ?e m of Inl x \<Rightarrow> True | Inr b \<Rightarrow>
      case jpeg_decode ?e b of Inl x \<Rightarrow> True | Inr d \<Rightarrow>
      case constant_model [] (tensor_encode d) of Inl x \<Rightarrow> True | Inr outputs \<Rightarrow> outputs = []"
    by (simp add: sample_env_def failing_decode_def)
  have i: "isl (analyze_try ?e (constant_model []) ''leaf.jpg'' (?st\<lparr>loading := True\<rparr>))"
    using A[THEN conjunct2, THEN conjunct2, THEN conjunct1, rule_format, OF c] .
  have p: "prediction ?st = Some \<lparr>label = Some ''Brown Spot'', confidence = ''75.00%''\<rparr>"
    and a: "alerts ?st = []"
    by (simp_all add: ready_state_def initial_state_def)
  have s: "manipulateAsync ?e2 ''leaf.jpg'' = Inr ''resized-leaf.jpg'' \<and>
    readAsStringAsync ?e2 ''resized-leaf.jpg'' = Inr ''base64-of-resized-leaf.jpg'' \<and>
    jpeg_decode ?e2 ''base64-of-resized-leaf.jpg'' = Inr (replicate 200704 255) \<and>
    constant_model [] (tensor_encode (replicate 200704 255)) = Inr ([] # [])"
    by (simp add: sample_env_def sample_decode_def constant_model_def)
  note E = thrown_failure_caught[where e = ?e2 and run = "constant_model []"
      and img = "''leaf.jpg''" and st = initial_state and m = "''resized-leaf.jpg''"
      and b = "''base64-of-resized-leaf.jpg''" and d = "replicate 200704 255" and rest = "[]",
      THEN conjunct2, THEN conjunct2, THEN conjunct2, rule_format, OF s]
  have ia: "alerts initial_state = []" by (simp add: initial_state_def)
  show ?thesis using g d i T E s unfolding p a ia by simp
qed

text \<open>
  Claim C10. \<open>addToHistory\<close> never ends in a rejected promise: when getting, parsing or
  setting the stored history throws, the error is logged and the function returns normally,
  leaving the prediction and the dialogs as they were. Whatever the store does, a request
  whose library calls succeed surfaces its Diagnosis and shows no failure dialog.
\<close>

theorem history_failure_contained:
  "(\<exists>s. addToHistory e pd u st = Inr s) \<and>
   (addToHistory_try e pd u st = Inl (Exn msg, s) \<longrightarrow>
      addToHistory e pd u st =
        Inr (st\<lparr>console_errors := console_errors st @ [''Failed to save history: '' @ msg]\<rparr>)) \<and>
   prediction (detached (addToHistory e pd u st)) = prediction st \<and>
   alerts (detached (addToHistory e pd u st)) = alerts st \<and>
   (manipulateAsync e img = Inr m \<and> readAsStringAsync e m = Inr b \<and> jpeg_decode e b = Inr d \<and>
    run (tensor_encode d) = Inr (v # rest) \<longrightarrow>
      prediction (analyze_run e run img st) = Some (interpret_scores (Number_toString e) v) \<and>
      alerts (analyze_run e run img st) = alerts st)"
proof (intro conjI impI)
  show "\<exists>s. addToHistory e pd u st = Inr s" using addToHistory_frame[of e pd u st] by blast
next
  assume a: "addToHistory_try e pd u st = Inl (Exn msg, s)"
  then have "s = st" by (rule addToHistory_try_Inl)
  then show "addToHistory e pd u st =
        Inr (st\<lparr>console_errors := console_errors st @ [''Failed to save history: '' @ msg]\<rparr>)"
    using a by (simp add: addToHistory_def)
next
  show "prediction (detached (addToHistory e pd u st)) = prediction st"
    "alerts (detached (addToHistory e pd u st)) = alerts st"
    by (rule detached_addToHistory)+
next
  assume a: "manipulateAsync e img = Inr m \<and> readAsStringAsync e m = Inr b \<and>
    jpeg_decode e b = Inr d \<and> run (tensor_encode d) = Inr (v # rest)"
  then have s: "manipulateAsync e img = Inr m" "readAsStringAsync e m = Inr b"
    "jpeg_decode e b = Inr d" "run (tensor_encode d) = Inr (v # rest)" by simp_all
  show "prediction (analyze_run e run img st) = Some (interpret_scores (Number_toString e) v)"
    by (rule analyze_run_success(1)[where run = run, OF s])
  show "alerts (analyze_run e run img st) = alerts st"
    by (rule analyze_run_success(2)[where run = run, OF s])
qed

theorem history_failure_contained_witness:
  "addToHistory_try (sample_env sample_decode None (Some (Exn ''disk full'')))
      \<lparr>label = Some ''Leaf Blast'', confidence = ''75.00%''\<rparr> ''bright.jpg'' initial_state
     = Inl (Exn ''disk full'', initial_state) \<and>
   addToHistory (sample_env sample_decode None (Some (Exn ''disk full'')))
      \<lparr>label = Some ''Leaf Blast'', confidence = ''75.00%''\<rparr> ''bright.jpg'' initial_state
     = Inr (initial_state\<lparr>console_errors := [''Failed to save history: disk full'']\<rparr>) \<and>
   prediction (analyze_run (sample_env sample_decode None (Some (Exn ''disk full'')))
      brightness_model ''bright.jpg'' initial_state)
     = Some \<lparr>label = Some ''Leaf Blast'', confidence = ''75.00%''\<rparr> \<and>
   alerts (analyze_run (sample_env sample_decode None (Some (Exn ''disk full'')))
      brightness_model ''bright.jpg'' initial_state) = []"
proof -
  let ?e = "sample_env sample_decode None (Some (Exn ''disk full''))"
  let ?pd = "\<lparr>label = Some ''Leaf Blast'', confidence = ''75.00%''\<rparr>"
  let ?v = "[Fin (1 / 4), Fin 0, Fin 0, Fin (3 / 4), Fin 0, Fin 0, Fin 0]"
  have h: "addToHistory_try ?e ?pd ''bright.jpg'' initial_state = Inl (Exn ''disk full'', initial_state)"
    by (simp add: addToHistory_try_def sample_env_def parse_history_def initial_state_def)
  note T = history_failure_contained[of ?e ?pd "''bright.jpg''" initial_state "''disk full''"
      initial_state "''bright.jpg''" "''resized-bright.jpg''" "''base64-of-resized-bright.jpg''"
      "replicate 200704 255" brightness_model ?v "[]"]
  have a: "addToHistory ?e ?pd ''bright.jpg'' initial_state
     = Inr (initial_state\<lparr>console_errors := [''Failed to save history: disk full'']\<rparr>)"
    using T[THEN conjunct2, THEN conjunct1, rule_format, OF h]
    by (simp add: initial_state_def)
  have s: "manipulateAsync ?e ''bright.jpg'' = Inr ''resized-bright.jpg'' \<and>
    readAsStringAsync ?e ''resized-bright.jpg'' = Inr ''base64-of-resized-bright.jpg'' \<and>
    jpeg_decode ?e ''base64-of-resized-bright.jpg'' = Inr (replicate 200704 255) \<and>
    brightness_model (tensor_encode (replicate 200704 255)) = Inr (?v # [])"
    by (simp add: sample_env_def sample_decode_def brightness_model_def
        take_one_tensor_encode read_u8_def)
  have i: "interpret_scores (Number_toString ?e) ?v = ?pd"
    by (simp add: sample_env_def interpret_eval)
  have p: "prediction (analyze_run ?e brightness_model ''bright.jpg'' initial_state) = Some ?pd"
    and al: "alerts (analyze_run ?e brightness_model ''bright.jpg'' initial_state) = []"
    using T[THEN conjunct2, THEN conjunct2, THEN conjunct2, THEN conjunct2, rule_format, OF s] i
    by (simp_all add: initial_state_def)
  show ?thesis using h a p al by simp
qed

text \<open>
  Claim C8. When a diagnosis is appended (the store accepts the read and the write, and the
  stored text is a list of entries or absent), the stored list is the new entry followed by
  the first 19 of the previous entries in their order: the new entry is first and the
  length is at most 20. The new entry carries the label, the confidence and the image of
  the diagnosis. A successful request stores exactly this list.
\<close>

theorem history_most_recent_first_capped:
  "(getItem_rejects e = None \<and> setItem_rejects e = None \<and>
    parse_history (leaf_history st) = Inr old \<longrightarrow>
      (\<exists>ys. addToHistory e pd u st = Inr (st\<lparr>leaf_history := Some (HistoryJSON ys)\<rparr>) \<and>
         ys = take 20 (new_entry e pd u # old) \<and>
         hd ys = new_entry e pd u \<and> tl ys = take 19 old \<and> length ys \<le> 20 \<and>
         entry_label (hd ys) = label pd \<and> entry_confidence (hd ys) = confidence pd \<and>
         entry_imageUri (hd ys) = u)) \<and>
   (getItem_rejects e = None \<and> setItem_rejects e = None \<and>
    parse_history (leaf_history st) = Inr old \<and>
    manipulateAsync e img = Inr m \<and> readAsStringAsync e m = Inr b \<and> jpeg_decode e b = Inr d \<and>
    run (tensor_encode d) = Inr (v # rest) \<longrightarrow>
      leaf_history (analyze_run e run img st) =
        Some (HistoryJSON (take 20
          (new_entry e (interpret_scores (Number_toString e) v) img # old))))"
proof (intro conjI impI)
  assume a: "getItem_rejects e = None \<and> setItem_rejects e = None \<and>
    parse_history (leaf_history st) = Inr old"
  let ?ys = "take 20 (new_entry e pd u # old)"
  have s: "addToHistory e pd u st = Inr (st\<lparr>leaf_history := Some (HistoryJSON ?ys)\<rparr>)"
    using a by (intro addToHistory_saved) simp_all
  have ys: "?ys = new_entry e pd u # take 19 old" by simp
  have "hd ?ys = new_entry e pd u" "tl ?ys = take 19 old" "length ?ys \<le> 20"
    "entry_label (hd ?ys) = label pd" "entry_confidence (hd ?ys) = confidence pd"
    "entry_imageUri (hd ?ys) = u"
    unfolding ys by (simp_all add: new_entry_def)
  then show "\<exists>ys. addToHistory e pd u st = Inr (st\<lparr>leaf_history := Some (HistoryJSON ys)\<rparr>) \<and>
         ys = take 20 (new_entry e pd u # old) \<and>
         hd ys = new_entry e pd u \<and> tl ys = take 19 old \<and> length ys \<le> 20 \<and>
         entry_label (hd ys) = label pd \<and> entry_confidence (hd ys) = confidence pd \<and>
         entry_imageUri (hd ys) = u"
    using s by blast
next
  assume a: "getItem_rejects e = None \<and> setItem_rejects e = None \<and>
    parse_history (leaf_history st) = Inr old \<and>
    manipulateAsync e img = Inr m \<and> readAsStringAsync e m = Inr b \<and> jpeg_decode e b = Inr d \<and>
    run (tensor_encode d) = Inr (v # rest)"
  then have s: "manipulateAsync e img = Inr m" "readAsStringAsync e m = Inr b"
    "jpeg_decode e b = Inr d" "run (tensor_encode d) = Inr (v # rest)" by simp_all
  let ?rd = "interpret_scores (Number_toString e) v"
  have h: "addToHistory e ?rd img (st\<lparr>prediction := Some ?rd\<rparr>) =
     Inr (st\<lparr>prediction := Some ?rd,
            leaf_history := Some (HistoryJSON (take 20 (new_entry e ?rd img # old)))\<rparr>)"
    using a by (subst addToHistory_saved[where old = old]) simp_all
  show "leaf_history (analyze_run e run img st) =
        Some (HistoryJSON (take 20 (new_entry e ?rd img # old)))"
    unfolding analyze_run_def analyze_try_success[where run = run, OF s] h
    by (simp add: detached_def)
qed

theorem history_most_recent_first_capped_witness:
  "getItem_rejects (sample_env sample_decode None None) = None \<and>
   setItem_rejects (sample_env sample_decode None None) = None \<and>
   parse_history (leaf_history
      (initial_state\<lparr>leaf_history := Some (HistoryJSON (replicate 20 (sample_entry ''1'')))\<rparr>))
     = Inr (replicate 20 (sample_entry ''1'')) \<and>
   addToHistory (sample_env sample_decode None None)
      \<lparr>label = Some ''Leaf Blast'', confidence = ''75.00%''\<rparr> ''bright.jpg''
      (initial_state\<lparr>leaf_history := Some (HistoryJSON (replicate 20 (sample_entry ''1'')))\<rparr>)
     = Inr (initial_state\<lparr>leaf_history := Some (HistoryJSON
         (new_entry (sample_env sample_decode None None)
            \<lparr>label = Some ''Leaf Blast'', confidence = ''75.00%''\<rparr> ''bright.jpg''
          # replicate 19 (sample_entry ''1'')))\<rparr>) \<and>
   leaf_history (analyze_run (sample_env sample_decode None None) brightness_model ''bright.jpg''
      (initial_state\<lparr>leaf_history := Some (HistoryJSON (replicate 20 (sample_entry ''1'')))\<rparr>))
     = Some (HistoryJSON
         (new_entry (sample_env sample_decode None None)
            \<lparr>label = Some ''Leaf Blast'', confidence = ''75.00%''\<rparr> ''bright.jpg''
          # replicate 19 (sample_entry ''1'')))"
proof -
  let ?e = "sample_env sample_decode None None"
  let ?st = "initial_state\<lparr>leaf_history := Some (HistoryJSON (replicate 20 (sample_entry ''1'')))\<rparr>"
  let ?pd = "\<lparr>label = Some ''Leaf Blast'', confidence = ''75.00%''\<rparr>"
  have h: "getItem_rejects ?e = None \<and> setItem_rejects ?e = None \<and>
    parse_history (leaf_history ?st) = Inr (replicate 20 (sample_entry ''1''))"
    by (simp add: sample_env_def parse_history_def)
  let ?v = "[Fin (1 / 4), Fin 0, Fin 0, Fin (3 / 4), Fin 0, Fin 0, Fin 0]"
  note U = history_most_recent_first_capped[of ?e ?st "replicate 20 (sample_entry ''1'')" ?pd
      "''bright.jpg''" "''bright.jpg''" "''resized-bright.jpg''" "''base64-of-resized-bright.jpg''"
      "replicate 200704 255" brightness_model ?v "[]"]
  note T = U[THEN conjunct1, rule_format, OF h]
  have s: "manipulateAsync ?e ''bright.jpg'' = Inr ''resized-bright.jpg'' \<and>
    readAsStringAsync ?e ''resized-bright.jpg'' = Inr ''base64-of-resized-bright.jpg'' \<and>
    jpeg_decode ?e ''base64-of-resized-bright.jpg'' = Inr (replicate 200704 255) \<and>
    brightness_model (tensor_encode (replicate 200704 255)) = Inr (?v # [])"
    by (simp add: sample_env_def sample_decode_def brightness_model_def
        take_one_tensor_encode read_u8_def)
  have i: "interpret_scores (Number_toString ?e) ?v = ?pd"
    by (simp add: sample_env_def interpret_eval)
  have hs: "getItem_rejects ?e = None \<and> setItem_rejects ?e = None \<and>
    parse_history (leaf_history ?st) = Inr (replicate 20 (sample_entry ''1'')) \<and>
    manipulateAsync ?e ''bright.jpg'' = Inr ''resized-bright.jpg'' \<and>
    readAsStringAsync ?e ''resized-bright.jpg'' = Inr ''base64-of-resized-bright.jpg'' \<and>
    jpeg_decode ?e ''base64-of-resized-bright.jpg'' = Inr (replicate 200704 255) \<and>
    brightness_model (tensor_encode (replicate 200704 255)) = Inr (?v # [])"
    using h s by blast
  have lh: "leaf_history (analyze_run ?e brightness_model ''bright.jpg'' ?st)
     = Some (HistoryJSON (new_entry ?e ?pd ''bright.jpg'' # replicate 19 (sample_entry ''1'')))"
    using U[THEN conjunct2, rule_format, OF hs] unfolding i by simp
  from T obtain ys where ys: "addToHistory ?e ?pd ''bright.jpg'' ?st
      = Inr (?st\<lparr>leaf_history := Some (HistoryJSON ys)\<rparr>)"
    "ys = take 20 (new_entry ?e ?pd ''bright.jpg'' # replicate 20 (sample_entry ''1''))"
    by blast
  have "ys = new_entry ?e ?pd ''bright.jpg'' # replicate 19 (sample_entry ''1'')"
    unfolding ys(2) by simp
  then show ?thesis using h ys(1) lh by simp
qed

section \<open>Advice lookup\<close>

text \<open>
  Claim C7 says that every label absent from the advice table gets the fallback message.
  It fails for a label that names a member inherited from \<open>Object.prototype\<close>: the lookup
  of \<open>"constructor"\<close> yields that inherited member, which is truthy, so \<open>||\<close> does not
  fall back, at either place where the table is read.
\<close>

theorem advice_inherited_counterexample:
  "map_of DISEASE_ADVICE ''constructor'' = None \<and>
   advice_for_history (Some ''constructor'') = Inherited ''constructor'' \<and>
   advice_for_display (Some ''constructor'') = Inherited ''constructor'' \<and>
   advice_for_history (Some ''constructor'') \<noteq> Str ''Consult an expert.'' \<and>
   advice_for_display (Some ''constructor'') \<noteq> Str ''Please consult an agricultural expert.''"
  by (simp add: advice_for_history_def advice_for_display_def get_property_def js_or_def
      truthy_def property_key_def DISEASE_ADVICE_def Object_prototype_keys_def)

text \<open>
  Claim C7, as amended. The lookup is a total function. For a label in the table it
  returns that label's advice. For a label that is neither in the table nor the name of a
  member inherited from \<open>Object.prototype\<close>, and for the label \<open>undefined\<close>, it returns
  the fallback message: "Consult an expert." where a history entry is built, "Please
  consult an agricultural expert." where the result is displayed. Each of the seven labels
  of the classifier is in the table.
\<close>

theorem advice_lookup_total:
  "(map_of DISEASE_ADVICE l = Some a \<longrightarrow>
      advice_for_history (Some l) = Str a \<and> advice_for_display (Some l) = Str a) \<and>
   (map_of DISEASE_ADVICE l = None \<and> l \<notin> set Object_prototype_keys \<longrightarrow>
      advice_for_history (Some l) = Str ''Consult an expert.'' \<and>
      advice_for_display (Some l) = Str ''Please consult an agricultural expert.'') \<and>
   advice_for_history None = Str ''Consult an expert.'' \<and>
   advice_for_display None = Str ''Please consult an agricultural expert.'' \<and>
   (\<forall>k \<in> set LABELS. \<exists>t. advice_for_display (Some k) = Str t \<and> map_of DISEASE_ADVICE k = Some t)"
proof (intro conjI impI)
  assume a: "map_of DISEASE_ADVICE l = Some a"
  then have "a \<noteq> []" by (rule advice_nonempty)
  then show "advice_for_history (Some l) = Str a" "advice_for_display (Some l) = Str a"
    using a by (simp_all add: advice_for_history_def advice_for_display_def get_property_def
        js_or_def truthy_def property_key_def)
next
  assume "map_of DISEASE_ADVICE l = None \<and> l \<notin> set Object_prototype_keys"
  then show "advice_for_history (Some l) = Str ''Consult an expert.''"
    "advice_for_display (Some l) = Str ''Please consult an agricultural expert.''"
    by (simp_all add: advice_for_history_def advice_for_display_def get_property_def
        js_or_def truthy_def property_key_def)
next
  show "advice_for_history None = Str ''Consult an expert.''"
    "advice_for_display None = Str ''Please consult an agricultural expert.''"
    by (simp_all add: advice_for_history_def advice_for_display_def get_property_def
        js_or_def truthy_def property_key_def DISEASE_ADVICE_def Object_prototype_keys_def)
next
  show "\<forall>k \<in> set LABELS. \<exists>t. advice_for_display (Some k) = Str t \<and> map_of DISEASE_ADVICE k = Some t"
    by (simp add: LABELS_def advice_for_display_def get_property_def
        js_or_def truthy_def property_key_def DISEASE_ADVICE_def warning_sign_def
        check_mark_def question_mark_def)
qed

theorem advice_lookup_total_witness:
  "map_of DISEASE_ADVICE ''Leaf Blast''
     = Some (warning_sign @ '' Treatment: Apply Tricyclazole. Maintain water level.'') \<and>
   advice_for_display (Some ''Leaf Blast'')
     = Str (warning_sign @ '' Treatment: Apply Tricyclazole. Maintain water level.'') \<and>
   map_of DISEASE_ADVICE ''Tungro'' = None \<and> ''Tungro'' \<notin> set Object_prototype_keys \<and>
   advice_for_history (Some ''Tungro'') = Str ''Consult an expert.'' \<and>
   advice_for_display (Some ''Tungro'') = Str ''Please consult an agricultural expert.''"
proof -
  have h1: "map_of DISEASE_ADVICE ''Leaf Blast''
     = Some (warning_sign @ '' Treatment: Apply Tricyclazole. Maintain water level.'')"
    by (simp add: DISEASE_ADVICE_def)
  have h2: "map_of DISEASE_ADVICE ''Tungro'' = None \<and> ''Tungro'' \<notin> set Object_prototype_keys"
    by (simp add: DISEASE_ADVICE_def Object_prototype_keys_def)
  note A = advice_lookup_total[of "''Leaf Blast''"
      "warning_sign @ '' Treatment: Apply Tricyclazole. Maintain water level.''",
      THEN conjunct1, rule_format, OF h1]
  note B = advice_lookup_total[of "''Tungro''" "[]", THEN conjunct2, THEN conjunct1, rule_format, OF h2]
  show ?thesis using h1 h2 A B by simp
qed

section \<open>Selecting a new image while a request is suspended\<close>

text \<open>
  When the request has completed before the next image is picked, the pick clears its
  Diagnosis.
\<close>

lemma reset_after_completed_request:
  "prediction (fst (run_events e
      [ModelLoaded m, PickerReturns (Picked u), DiagnosePressed, AnalysisResumes,
       PickerReturns (Picked w)] (initial_state, None))) = None"
  "selectedImage (fst (run_events e
      [ModelLoaded m, PickerReturns (Picked u), DiagnosePressed, AnalysisResumes,
       PickerReturns (Picked w)] (initial_state, None))) = Some w"
  by (simp_all add: run_events_def step_def handleImageResult_def split: option.splits prod.splits)

text \<open>
  When the next image is picked while the request is suspended, the request still surfaces
  its Diagnosis on resuming, for whatever images, classifier and library behaviour under
  which the request succeeds.
\<close>

lemma resumed_request_overwrites_reset:
  assumes "u \<noteq> []"
    and "manipulateAsync e u = Inr r" and "readAsStringAsync e r = Inr b"
    and "jpeg_decode e b = Inr d" and "m (tensor_encode d) = Inr (v # rest)"
  shows "selectedImage (fst (run_events e
      [ModelLoaded m, PickerReturns (Picked u), DiagnosePressed, PickerReturns (Picked w),
       AnalysisResumes] (initial_state, None))) = Some w"
    and "prediction (fst (run_events e
      [ModelLoaded m, PickerReturns (Picked u), DiagnosePressed, PickerReturns (Picked w),
       AnalysisResumes] (initial_state, None))) = Some (interpret_scores (Number_toString e) v)"
proof -
  let ?s2 = "handleImageResult (Picked u) (initial_state\<lparr>model := Some m\<rparr>)"
  let ?s4 = "handleImageResult (Picked w) (?s2\<lparr>loading := True\<rparr>)"
  have ready: "\<not> loading ?s2" "\<not> not_ready ?s2" "the (model ?s2) = m" "the (selectedImage ?s2) = u"
    using assms(1) by (simp_all add: handleImageResult_def initial_state_def not_ready_def)
  have run: "run_events e
      [ModelLoaded m, PickerReturns (Picked u), DiagnosePressed, PickerReturns (Picked w),
       AnalysisResumes] (initial_state, None) = (analyze_run e m u ?s4, None)"
    using ready by (simp add: run_events_def step_def)
  have sel: "selectedImage ?s4 = Some w" by (simp add: handleImageResult_def)
  show "selectedImage (fst (run_events e
      [ModelLoaded m, PickerReturns (Picked u), DiagnosePressed, PickerReturns (Picked w),
       AnalysisResumes] (initial_state, None))) = Some w"
    unfolding run using analyze_run_success(3)[where run = m, OF assms(2-5)] sel by simp
  show "prediction (fst (run_events e
      [ModelLoaded m, PickerReturns (Picked u), DiagnosePressed, PickerReturns (Picked w),
       AnalysisResumes] (initial_state, None))) = Some (interpret_scores (Number_toString e) v)"
    unfolding run using analyze_run_success(1)[where run = m, OF assms(2-5)] by simp
qed

text \<open>
  Claim C9 says that a surfaced Diagnosis never refers to a previously selected image.
  \<open>handleImageResult\<close> does reset the prediction when an image is picked, but a request
  that is suspended at that moment still sets the prediction when it resumes. Run: the
  model loads; \<open>dark.jpg\<close> is picked; Diagnose is pressed; before the request resumes,
  \<open>bright.jpg\<close> is picked; the request resumes. At the end \<open>bright.jpg\<close> is the selected
  image and the surfaced Diagnosis is the one of \<open>dark.jpg\<close> ("Bacterial Leaf Blight"),
  whereas the Diagnosis of \<open>bright.jpg\<close> is "Leaf Blast".
\<close>

theorem stale_diagnosis_after_new_selection:
  "selectedImage (fst (run_events (sample_env sample_decode None None)
      [ModelLoaded brightness_model, PickerReturns (Picked ''dark.jpg''), DiagnosePressed,
       PickerReturns (Picked ''bright.jpg''), AnalysisResumes] (initial_state, None)))
     = Some ''bright.jpg'' \<and>
   prediction (fst (run_events (sample_env sample_decode None None)
      [ModelLoaded brightness_model, PickerReturns (Picked ''dark.jpg''), DiagnosePressed,
       PickerReturns (Picked ''bright.jpg''), AnalysisResumes] (initial_state, None)))
     = Some \<lparr>label = Some ''Bacterial Leaf Blight'', confidence = ''75.00%''\<rparr> \<and>
   prediction (analyzeImage (sample_env sample_decode None None)
      (ready_state brightness_model ''dark.jpg''))
     = Some \<lparr>label = Some ''Bacterial Leaf Blight'', confidence = ''75.00%''\<rparr> \<and>
   prediction (analyzeImage (sample_env sample_decode None None)
      (ready_state brightness_model ''bright.jpg''))
     = Some \<lparr>label = Some ''Leaf Blast'', confidence = ''75.00%''\<rparr>"
proof -
  let ?e = "sample_env sample_decode None None"
  let ?s1 = "initial_state\<lparr>model := Some brightness_model\<rparr>"
  let ?s2 = "handleImageResult (Picked ''dark.jpg'') ?s1"
  let ?s3 = "?s2\<lparr>loading := True\<rparr>"
  let ?s4 = "handleImageResult (Picked ''bright.jpg'') ?s3"
  have ready: "\<not> loading ?s2" "\<not> not_ready ?s2" "the (model ?s2) = brightness_model"
    "the (selectedImage ?s2) = ''dark.jpg''"
    by (simp_all add: handleImageResult_def initial_state_def not_ready_def)
  have run: "run_events ?e
      [ModelLoaded brightness_model, PickerReturns (Picked ''dark.jpg''), DiagnosePressed,
       PickerReturns (Picked ''bright.jpg''), AnalysisResumes] (initial_state, None)
     = (analyze_run ?e brightness_model ''dark.jpg'' ?s4, None)"
    using ready by (simp add: run_events_def step_def)
  have sel: "selectedImage ?s4 = Some ''bright.jpg''" by (simp add: handleImageResult_def)
  show ?thesis
    unfolding run using sel
    by (simp add: sample_analysis analyzeImage_ready)
qed

end
